theory Spec2Isabelle
  imports Complex_Main "HOL-Library.Word"
begin

unbundle bit_operations_syntax

section \<open>JavaScript values\<close>

text \<open>
  The gateway is JavaScript. Wherever the source relies on truthiness (\<^verbatim>\<open>a || b\<close>,
  \<^verbatim>\<open>if (x)\<close>, \<^verbatim>\<open>!x\<close>) the value is kept as a \<open>jsval\<close>, so that the falsy values
  \<^verbatim>\<open>undefined\<close>, \<^verbatim>\<open>null\<close>, \<^verbatim>\<open>false\<close>, \<^verbatim>\<open>0\<close>, \<^verbatim>\<open>NaN\<close> and \<^verbatim>\<open>''\<close> stay distinguishable.
  Numbers are idealised as reals (only comparison with zero matters below), with
  \<open>JNaN\<close> apart.
\<close>

datatype jsval = JUndefined | JNull | JBool bool | JNum real | JNaN | JStr string

fun truthy :: "jsval \<Rightarrow> bool" where
  "truthy JUndefined = False"
| "truthy JNull = False"
| "truthy (JBool b) = b"
| "truthy (JNum x) = (x \<noteq> 0)"
| "truthy JNaN = False"
| "truthy (JStr s) = (s \<noteq> [])"

definition js_or :: "jsval \<Rightarrow> jsval \<Rightarrow> jsval" where
  \<comment> \<open>\<^verbatim>\<open>a || b\<close>\<close>
  "js_or a b = (if truthy a then a else b)"

text \<open>A plain object with string keys, in insertion order.\<close>

type_synonym jsobj = "(string \<times> jsval) list"

fun obj_set :: "jsobj \<Rightarrow> string \<Rightarrow> jsval \<Rightarrow> jsobj" where
  "obj_set [] k v = [(k, v)]"
| "obj_set ((k', v') # rest) k v =
     (if k' = k then (k, v) # rest else (k', v') # obj_set rest k v)"

definition obj_spread :: "jsobj \<Rightarrow> jsobj option \<Rightarrow> jsobj" where
  \<comment> \<open>\<^verbatim>\<open>{ ...base, ...ext }\<close>; spreading \<^verbatim>\<open>undefined\<close> adds nothing\<close>
  "obj_spread base ext =
     (case ext of None \<Rightarrow> base
      | Some kvs \<Rightarrow> foldl (\<lambda>acc kv. obj_set acc (fst kv) (snd kv)) base kvs)"

definition is_space :: "char \<Rightarrow> bool" where
  "is_space c = (c \<in> set [CHR '' '', CHR 0x09, CHR 0x0A, CHR 0x0B, CHR 0x0C, CHR 0x0D])"

definition is_digit :: "char \<Rightarrow> bool" where
  "is_digit c = (c \<in> set ''0123456789'')"

definition digits_val :: "string \<Rightarrow> nat" where
  "digits_val ds = foldl (\<lambda>acc c. 10 * acc + (of_char c - 48)) 0 ds"

definition parseInt10 :: "string \<Rightarrow> jsval" where
  \<comment> \<open>\<^verbatim>\<open>parseInt(s, 10)\<close>: leading white space, an optional sign, the longest run of
      decimal digits; \<^verbatim>\<open>NaN\<close> when there is none\<close>
  "parseInt10 s =
     (let t = dropWhile is_space s;
          neg = (t \<noteq> [] \<and> hd t = CHR ''-'');
          u = (if t \<noteq> [] \<and> (hd t = CHR ''-'' \<or> hd t = CHR ''+'') then tl t else t);
          ds = takeWhile is_digit u
      in if ds = [] then JNaN
         else JNum (if neg then - real (digits_val ds) else real (digits_val ds)))"

section \<open>SHA-256 (the digest behind \<^verbatim>\<open>createHash('sha256')\<close>)\<close>

text \<open>
  \<^verbatim>\<open>AuditLogger._hash\<close> calls Node's \<^verbatim>\<open>createHash('sha256').update(data).digest('hex')\<close>.
  The library function is FIPS 180-4 SHA-256 over the bytes of the string, printed as
  lower-case hexadecimal; it is written out here so that the digest is a concrete,
  executable function. A string is its list of bytes.
\<close>

type_synonym w32 = "32 word"

definition Ch :: "w32 \<Rightarrow> w32 \<Rightarrow> w32 \<Rightarrow> w32" where
  "Ch x y z = (x AND y) XOR (NOT x AND z)"

definition Maj :: "w32 \<Rightarrow> w32 \<Rightarrow> w32 \<Rightarrow> w32" where
  "Maj x y z = (x AND y) XOR (x AND z) XOR (y AND z)"

definition Sigma0 :: "w32 \<Rightarrow> w32" where
  "Sigma0 x = word_rotr 2 x XOR word_rotr 13 x XOR word_rotr 22 x"

definition Sigma1 :: "w32 \<Rightarrow> w32" where
  "Sigma1 x = word_rotr 6 x XOR word_rotr 11 x XOR word_rotr 25 x"

definition sigma0 :: "w32 \<Rightarrow> w32" where
  "sigma0 x = word_rotr 7 x XOR word_rotr 18 x XOR drop_bit 3 x"

definition sigma1 :: "w32 \<Rightarrow> w32" where
  "sigma1 x = word_rotr 17 x XOR word_rotr 19 x XOR drop_bit 10 x"

definition sha256_K :: "w32 list" where
  "sha256_K =
    [1116352408, 1899447441, 3049323471, 3921009573, 961987163, 1508970993, 2453635748, 2870763221,
     3624381080, 310598401, 607225278, 1426881987, 1925078388, 2162078206, 2614888103, 3248222580,
     3835390401, 4022224774, 264347078, 604807628, 770255983, 1249150122, 1555081692, 1996064986,
     2554220882, 2821834349, 2952996808, 3210313671, 3336571891, 3584528711, 113926993, 338241895,
     666307205, 773529912, 1294757372, 1396182291, 1695183700, 1986661051, 2177026350, 2456956037,
     2730485921, 2820302411, 3259730800, 3345764771, 3516065817, 3600352804, 4094571909, 275423344,
     430227734, 506948616, 659060556, 883997877, 958139571, 1322822218, 1537002063, 1747873779,
     1955562222, 2024104815, 2227730452, 2361852424, 2428436474, 2756734187, 3204031479, 3329325298]"

type_synonym sha_state = "w32 \<times> w32 \<times> w32 \<times> w32 \<times> w32 \<times> w32 \<times> w32 \<times> w32"

definition sha256_H0 :: sha_state where
  "sha256_H0 = (1779033703, 3144134277, 1013904242, 2773480762,
                1359893119, 2600822924, 528734635, 1541459225)"

definition sha256_pad :: "nat list \<Rightarrow> nat list" where
  "sha256_pad bs =
     bs @ [128] @ replicate ((119 - length bs mod 64) mod 64) 0
        @ map (\<lambda>i. (8 * length bs) div 2 ^ (8 * i) mod 256) [7, 6, 5, 4, 3, 2, 1, 0]"

fun be_words :: "nat list \<Rightarrow> w32 list" where
  "be_words (b0 # b1 # b2 # b3 # bs) =
     of_nat (b0 * 16777216 + b1 * 65536 + b2 * 256 + b3) # be_words bs"
| "be_words _ = []"

fun extend :: "nat \<Rightarrow> w32 list \<Rightarrow> w32 list" where
  "extend 0 ws = ws"
| "extend (Suc n) ws =
     extend n (ws @ [sigma1 (ws ! (length ws - 2)) + ws ! (length ws - 7)
                      + sigma0 (ws ! (length ws - 15)) + ws ! (length ws - 16)])"

definition sha_round :: "sha_state \<Rightarrow> w32 \<times> w32 \<Rightarrow> sha_state" where
  "sha_round s kw =
     (case s of (a, b, c, d, e, f, g, h) \<Rightarrow>
        (let t1 = h + Sigma1 e + Ch e f g + fst kw + snd kw;
             t2 = Sigma0 a + Maj a b c
         in (t1 + t2, a, b, c, d + t1, e, f, g)))"

definition compress :: "sha_state \<Rightarrow> nat list \<Rightarrow> sha_state" where
  "compress s block =
     (case s of (a, b, c, d, e, f, g, h) \<Rightarrow>
       (case foldl sha_round s (zip sha256_K (extend 48 (be_words block))) of
          (a', b', c', d', e', f', g', h') \<Rightarrow>
            (a + a', b + b', c + c', d + d', e + e', f + f', g + g', h + h')))"

fun sha_blocks :: "nat \<Rightarrow> nat list \<Rightarrow> sha_state \<Rightarrow> sha_state" where
  "sha_blocks 0 bs s = s"
| "sha_blocks (Suc n) bs s = sha_blocks n (drop 64 bs) (compress s (take 64 bs))"

definition hex32 :: "w32 \<Rightarrow> string" where
  "hex32 w = map (\<lambda>i. ''0123456789abcdef'' ! (unat (drop_bit (4 * i) w) mod 16))
                 [7, 6, 5, 4, 3, 2, 1, 0]"

definition hex_state :: "sha_state \<Rightarrow> string" where
  "hex_state st =
     (case st of (a, b, c, d, e, f, g, h) \<Rightarrow>
        hex32 a @ hex32 b @ hex32 c @ hex32 d @ hex32 e @ hex32 f @ hex32 g @ hex32 h)"

definition sha256_hex :: "string \<Rightarrow> string" where
  "sha256_hex s =
     hex_state (sha_blocks (length (sha256_pad (map of_char s)) div 64)
                  (sha256_pad (map of_char s)) sha256_H0)"

definition is_hex64 :: "string \<Rightarrow> bool" where
  "is_hex64 h = (length h = 64 \<and> list_all (\<lambda>c. c \<in> set ''0123456789abcdef'') h)"

section \<open>The audit logger (\<^verbatim>\<open>audit-logger.js\<close>, \<^verbatim>\<open>pg-client.js\<close>)\<close>

text \<open>
  What \<^verbatim>\<open>AuditLogger.log\<close> reads of the Fastify request and reply. \<open>None\<close> is
  \<^verbatim>\<open>undefined\<close>: a header that was not sent, a start time that no hook stamped, a
  reply without a \<^verbatim>\<open>payload\<close> property (\<open>rp_payload\<close> is the JSON text of that
  property; Fastify's reply has none, so the gateway's own replies leave it \<open>None\<close>).
\<close>

record audit_options =
  o_is_blocked :: jsval
  o_block_reason :: jsval
  o_detected_issues_count :: jsval
  o_security_confidence :: jsval
  o_llm_provider :: jsval
  o_llm_model :: jsval
  o_metadata :: "jsobj option"

definition empty_options :: audit_options where
  \<comment> \<open>the object literal \<^verbatim>\<open>{}\<close>\<close>
  "empty_options =
     \<lparr> o_is_blocked = JUndefined, o_block_reason = JUndefined,
       o_detected_issues_count = JUndefined, o_security_confidence = JUndefined,
       o_llm_provider = JUndefined, o_llm_model = JUndefined, o_metadata = None \<rparr>"

record chat_message =
  m_role :: string
  m_content :: string

record chat_body =
  cb_messages :: "chat_message list"
  cb_model :: "string option"

record request =
  rq_id :: string
  rq_http_method :: string
  rq_url :: string
  rq_ip :: string
  rq_headers :: "string \<rightharpoonup> string"
  rq_startTime :: "int option"
  rq_body :: "chat_body option"
  rq_route_url :: "string option"
  rq_auditContext :: "audit_options option"

definition body_model :: "request \<Rightarrow> jsval" where
  \<comment> \<open>\<^verbatim>\<open>request.body?.model\<close>\<close>
  "body_model req =
     (case rq_body req of
        None \<Rightarrow> JUndefined
      | Some b \<Rightarrow> (case cb_model b of None \<Rightarrow> JUndefined | Some m \<Rightarrow> JStr m))"

text \<open>
  The bodies the gateway sends: the uniform error body with its \<^verbatim>\<open>details\<close>, and the
  readiness report.
\<close>

record formatted_issue =
  fi_type :: string
  fi_text :: string
  fi_start :: int
  fi_end :: int
  fi_confidence :: real

datatype error_details =
    NoDetails
  | RateLimitDetails "int option" "int option" "int option"
      \<comment> \<open>\<^verbatim>\<open>{limit, reset, retryAfter}\<close>\<close>
  | BlockedDetails bool "formatted_issue list" real string
      \<comment> \<open>\<^verbatim>\<open>{is_safe, detected_issues, confidence_score, redacted_preview}\<close>\<close>
  | SecurityCheckDetails bool real nat
      \<comment> \<open>\<^verbatim>\<open>{security_check: {is_safe, confidence_score, detected_issues_count}}\<close>\<close>

record error_body =
  eb_type :: string
  eb_message :: string
  eb_requestId :: string
  eb_timestamp :: int
  eb_details :: error_details

record ready_body =
  rb_status :: string
  rb_analyzer :: bool
  rb_redis :: bool
  rb_postgres :: bool
  rb_timestamp :: int
  rb_message :: "string option"

datatype body = ErrorBody error_body | ReadyBody ready_body | OtherBody

datatype hval = HNum int | HStr string

record reply =
  rp_statusCode :: int
  rp_headers :: "(string \<times> hval) list"
  rp_sent :: bool
  rp_body :: "body option"
  rp_payload :: "string option"

definition blank_reply :: reply where
  "blank_reply =
     \<lparr> rp_statusCode = 200, rp_headers = [], rp_sent = False, rp_body = None,
       rp_payload = None \<rparr>"

fun set_header :: "(string \<times> hval) list \<Rightarrow> string \<Rightarrow> hval \<Rightarrow> (string \<times> hval) list" where
  "set_header [] k v = [(k, v)]"
| "set_header ((k', v') # rest) k v =
     (if k' = k then (k, v) # rest else (k', v') # set_header rest k v)"

definition header :: "reply \<Rightarrow> string \<Rightarrow> hval \<Rightarrow> reply" where
  \<comment> \<open>\<^verbatim>\<open>reply.header(name, value)\<close>\<close>
  "header rep k v = rep\<lparr>rp_headers := set_header (rp_headers rep) k v\<rparr>"

definition header_of :: "reply \<Rightarrow> string \<Rightarrow> hval option" where
  "header_of rep k = map_of (rp_headers rep) k"

record log_entry =
  e_request_id :: string
  e_timestamp :: int
  e_http_method :: string
  e_path :: string
  e_client_ip_hash :: "string option"
  e_user_agent_hash :: "string option"
  e_api_key_hash :: "string option"
  e_request_size_bytes :: jsval
  e_response_status :: int
  e_response_size_bytes :: "nat option"
  e_response_time_ms :: jsval
  e_is_blocked :: jsval
  e_block_reason :: jsval
  e_detected_issues_count :: jsval
  e_security_confidence :: jsval
  e_llm_provider :: jsval
  e_llm_model :: jsval
  e_metadata :: jsobj

definition AuditLogger_hash :: "string option \<Rightarrow> string option" where
  \<comment> \<open>\<^verbatim>\<open>_hash(data)\<close>: \<^verbatim>\<open>if (!data) return null\<close>, else the SHA-256 hex digest.
      \<open>None\<close> is \<^verbatim>\<open>null\<close> on both sides.\<close>
  "AuditLogger_hash data =
     (case data of
        None \<Rightarrow> None
      | Some s \<Rightarrow> if s = [] then None else Some (sha256_hex s))"

definition extractApiKey :: "(string \<rightharpoonup> string) \<Rightarrow> string option" where
  \<comment> \<open>\<^verbatim>\<open>_extractApiKey\<close>: the bearer token, else the \<^verbatim>\<open>x-api-key\<close> header, else \<^verbatim>\<open>null\<close>\<close>
  "extractApiKey hs =
     (let xkey = (case hs ''x-api-key'' of
                    Some k \<Rightarrow> if k \<noteq> [] then Some k else None
                  | None \<Rightarrow> None)
      in case hs ''authorization'' of
           Some a \<Rightarrow> if a \<noteq> [] \<and> take 7 a = ''Bearer '' then Some (drop 7 a) else xkey
         | None \<Rightarrow> xkey)"

definition user_agent_of :: "request \<Rightarrow> string" where
  \<comment> \<open>\<^verbatim>\<open>request.headers['user-agent'] || ''\<close>\<close>
  "user_agent_of req = (case rq_headers req ''user-agent'' of Some ua \<Rightarrow> ua | None \<Rightarrow> [])"

definition logEntry :: "int \<Rightarrow> request \<Rightarrow> reply \<Rightarrow> audit_options \<Rightarrow> log_entry" where
  \<comment> \<open>the object literal \<^verbatim>\<open>logEntry\<close> of \<^verbatim>\<open>AuditLogger.log\<close>; \<open>now\<close> is the clock in ms\<close>
  "logEntry now req rep opts =
     (let apiKey = extractApiKey (rq_headers req) in
      \<lparr> e_request_id = rq_id req,
        e_timestamp = now,
        e_http_method = rq_http_method req,
        e_path = rq_url req,
        e_client_ip_hash = AuditLogger_hash (Some (rq_ip req)),
        e_user_agent_hash = AuditLogger_hash (Some (user_agent_of req)),
        e_api_key_hash =
          (case apiKey of
             Some k \<Rightarrow> if k \<noteq> [] then AuditLogger_hash (Some k) else None
           | None \<Rightarrow> None),
        e_request_size_bytes =
          (case rq_headers req ''content-length'' of
             Some cl \<Rightarrow> if cl \<noteq> [] then parseInt10 cl else JNull
           | None \<Rightarrow> JNull),
        e_response_status = rp_statusCode rep,
        e_response_size_bytes =
          (case rp_payload rep of Some json \<Rightarrow> Some (length json) | None \<Rightarrow> None),
        e_response_time_ms =
          (case rq_startTime req of Some t0 \<Rightarrow> JNum (real_of_int (now - t0)) | None \<Rightarrow> JNaN),
        e_is_blocked = js_or (o_is_blocked opts) (JBool False),
        e_block_reason = js_or (o_block_reason opts) JNull,
        e_detected_issues_count = js_or (o_detected_issues_count opts) (JNum 0),
        e_security_confidence = js_or (o_security_confidence opts) JNull,
        e_llm_provider = js_or (o_llm_provider opts) JNull,
        e_llm_model = js_or (js_or (o_llm_model opts) (body_model req)) JNull,
        e_metadata =
          obj_spread
            [(''user_agent_truncated'', JStr (take 100 (user_agent_of req))),
             (''request_path'',
               JStr (case rq_route_url req of
                       Some u \<Rightarrow> if u \<noteq> [] then u else rq_url req
                     | None \<Rightarrow> rq_url req))]
            (o_metadata opts) \<rparr>)"

text \<open>
  \<^verbatim>\<open>PostgresClient.insertAuditLog\<close> binds eighteen parameters to one \<^verbatim>\<open>INSERT\<close>; the
  record below is that parameter vector, column by column (the metadata column is JSONB:
  the object goes in as its JSON text and is stored as the object).
\<close>

record insert_params =
  p_request_id :: string
  p_timestamp :: int
  p_http_method :: string
  p_path :: string
  p_client_ip_hash :: "string option"
  p_user_agent_hash :: "string option"
  p_api_key_hash :: "string option"
  p_request_size_bytes :: jsval
  p_response_status :: int
  p_response_size_bytes :: "nat option"
  p_response_time_ms :: jsval
  p_is_blocked :: jsval
  p_block_reason :: jsval
  p_detected_issues_count :: jsval
  p_security_confidence :: jsval
  p_llm_provider :: jsval
  p_llm_model :: jsval
  p_metadata :: "jsobj option"

definition opt_or_null :: "string option \<Rightarrow> string option" where
  \<comment> \<open>\<^verbatim>\<open>s || null\<close> on a string-or-null\<close>
  "opt_or_null s = (case s of Some x \<Rightarrow> if x \<noteq> [] then Some x else None | None \<Rightarrow> None)"

definition insertAuditLog_params :: "log_entry \<Rightarrow> insert_params" where
  "insertAuditLog_params e =
     \<lparr> p_request_id = e_request_id e,
       p_timestamp = e_timestamp e,
       p_http_method = e_http_method e,
       p_path = e_path e,
       p_client_ip_hash = e_client_ip_hash e,
       p_user_agent_hash = opt_or_null (e_user_agent_hash e),
       p_api_key_hash = opt_or_null (e_api_key_hash e),
       p_request_size_bytes = js_or (e_request_size_bytes e) JNull,
       p_response_status = e_response_status e,
       p_response_size_bytes =
         (case e_response_size_bytes e of Some n \<Rightarrow> if n \<noteq> 0 then Some n else None | None \<Rightarrow> None),
       p_response_time_ms = e_response_time_ms e,
       p_is_blocked = js_or (e_is_blocked e) (JBool False),
       p_block_reason = js_or (e_block_reason e) JNull,
       p_detected_issues_count = js_or (e_detected_issues_count e) (JNum 0),
       p_security_confidence = js_or (e_security_confidence e) JNull,
       p_llm_provider = js_or (e_llm_provider e) JNull,
       p_llm_model = js_or (e_llm_model e) JNull,
       p_metadata = Some (e_metadata e) \<rparr>"

text \<open>
  The table \<^verbatim>\<open>audit_logs\<close> (\<^verbatim>\<open>001_create_audit_logs.sql\<close>) refuses an \<^verbatim>\<open>INSERT\<close> whose
  parameters do not fit its columns. node-postgres sends a parameter as text (\<^verbatim>\<open>null\<close>
  and \<^verbatim>\<open>undefined\<close> as \<^verbatim>\<open>NULL\<close>, a number or a boolean by \<^verbatim>\<open>toString\<close>), and the
  server reads the text by the type of the column: \<^verbatim>\<open>INTEGER\<close> takes a decimal integer
  of 32 bits, so neither \<^verbatim>\<open>NaN\<close> nor a fraction; \<^verbatim>\<open>BOOLEAN\<close> takes the boolean words;
  \<^verbatim>\<open>DECIMAL(3,2)\<close> rounds to two places and overflows at 10; \<^verbatim>\<open>VARCHAR(n)\<close> takes \<open>n\<close>
  characters and further blanks. On top of the types stand \<^verbatim>\<open>NOT NULL\<close> and the two
  \<^verbatim>\<open>CHECK\<close> constraints. Of the server's literal syntax the decimal forms are modelled
  (not the hexadecimal, octal and binary integers or the digit separators of
  PostgreSQL 16); the gateway binds a string to none of the numeric columns.
\<close>

definition int4_range :: "int \<Rightarrow> bool" where
  "int4_range n = (- 2147483648 \<le> n \<and> n \<le> 2147483647)"

definition varchar_fits :: "nat \<Rightarrow> string \<Rightarrow> bool" where
  \<comment> \<open>\<^verbatim>\<open>VARCHAR(n)\<close>: what exceeds \<open>n\<close> characters must be blank\<close>
  "varchar_fits n s = list_all (\<lambda>c. c = CHR '' '') (drop n s)"

definition pg_trim :: "string \<Rightarrow> string" where
  "pg_trim s = rev (dropWhile is_space (rev (dropWhile is_space s)))"

definition signed_digits :: "string \<Rightarrow> int option" where
  \<comment> \<open>an optional sign and at least one decimal digit, nothing else\<close>
  "signed_digits t =
     (let ds = (if t \<noteq> [] \<and> (hd t = CHR ''-'' \<or> hd t = CHR ''+'') then tl t else t)
      in if ds \<noteq> [] \<and> list_all is_digit ds
         then Some (if hd t = CHR ''-'' then - int (digits_val ds) else int (digits_val ds))
         else None)"

definition int4in :: "string \<Rightarrow> int option" where
  \<comment> \<open>a text read as \<^verbatim>\<open>INTEGER\<close>\<close>
  "int4in s =
     (case signed_digits (pg_trim s) of
        Some n \<Rightarrow> if int4_range n then Some n else None
      | None \<Rightarrow> None)"

definition numeric_in :: "string \<Rightarrow> real option" where
  \<comment> \<open>a text read as \<^verbatim>\<open>NUMERIC\<close>: sign, digits with an optional fraction, an optional
      exponent\<close>
  "numeric_in s =
     (let t = pg_trim s;
          neg = (t \<noteq> [] \<and> hd t = CHR ''-'');
          u = (if t \<noteq> [] \<and> (hd t = CHR ''-'' \<or> hd t = CHR ''+'') then tl t else t);
          ip = takeWhile is_digit u;
          r1 = dropWhile is_digit u;
          dot = (r1 \<noteq> [] \<and> hd r1 = CHR ''.'');
          fp = (if dot then takeWhile is_digit (tl r1) else []);
          r2 = (if dot then dropWhile is_digit (tl r1) else r1);
          ex = (if r2 = [] then Some 0
                else if hd r2 = CHR ''e'' \<or> hd r2 = CHR ''E'' then signed_digits (tl r2)
                else None);
          m = real (digits_val ip) + real (digits_val fp) / 10 ^ length fp
      in case ex of
           None \<Rightarrow> None
         | Some k \<Rightarrow>
             if ip = [] \<and> fp = [] then None
             else Some ((if neg then - m else m) * (if k < 0 then 1 / 10 ^ nat (- k) else 10 ^ nat k)))"

definition to_lower :: "char \<Rightarrow> char" where
  "to_lower c =
     (if 65 \<le> (of_char c :: nat) \<and> (of_char c :: nat) \<le> 90 then char_of (of_char c + 32 :: nat)
      else c)"

definition boolin :: "string \<Rightarrow> bool option" where
  \<comment> \<open>a text read as \<^verbatim>\<open>BOOLEAN\<close>: the words and their unambiguous prefixes\<close>
  "boolin s =
     (let t = map to_lower (pg_trim s)
      in if t \<in> set [''t'', ''tr'', ''tru'', ''true'', ''y'', ''ye'', ''yes'', ''on'', ''1'']
         then Some True
         else if t \<in> set [''f'', ''fa'', ''fal'', ''fals'', ''false'', ''n'', ''no'', ''of'',
                          ''off'', ''0'']
         then Some False
         else None)"

definition numeric_round2 :: "real \<Rightarrow> real" where
  \<comment> \<open>the cast to \<^verbatim>\<open>DECIMAL(n,2)\<close>: two places, a half rounds away from zero\<close>
  "numeric_round2 x =
     (if x < 0 then - real_of_int \<lfloor>- x * 100 + 1 / 2\<rfloor> / 100
      else real_of_int \<lfloor>x * 100 + 1 / 2\<rfloor> / 100)"

definition is_null :: "jsval \<Rightarrow> bool" where
  "is_null v = (v = JUndefined \<or> v = JNull)"

definition as_integer :: "jsval \<Rightarrow> bool" where
  \<comment> \<open>a parameter that is not \<^verbatim>\<open>NULL\<close>, bound to an \<^verbatim>\<open>INTEGER\<close> column. The text of a
      number is its decimal digits when the number is an integer of this range.\<close>
  "as_integer v =
     (case v of
        JNum x \<Rightarrow> x = real_of_int \<lfloor>x\<rfloor> \<and> int4_range \<lfloor>x\<rfloor>
      | JStr s \<Rightarrow> int4in s \<noteq> None
      | _ \<Rightarrow> False)"

definition as_boolean :: "jsval \<Rightarrow> bool" where
  "as_boolean v =
     (case v of
        JBool b \<Rightarrow> True
      | JNum x \<Rightarrow> x = 0 \<or> x = 1
      | JStr s \<Rightarrow> boolin s \<noteq> None
      | _ \<Rightarrow> False)"

definition confidence_ok :: "real \<Rightarrow> bool" where
  \<comment> \<open>\<^verbatim>\<open>DECIMAL(3,2)\<close> with \<^verbatim>\<open>CONSTRAINT valid_confidence\<close>, which reads the stored value\<close>
  "confidence_ok x = (0 \<le> numeric_round2 x \<and> numeric_round2 x \<le> 1)"

definition as_confidence :: "jsval \<Rightarrow> bool" where
  \<comment> \<open>the column \<^verbatim>\<open>security_confidence\<close>. The type takes \<^verbatim>\<open>NaN\<close>; the constraint does not
      (\<^verbatim>\<open>NaN\<close> sorts above every number).\<close>
  "as_confidence v =
     (case v of
        JNum x \<Rightarrow> confidence_ok x
      | JStr s \<Rightarrow> (case numeric_in s of Some x \<Rightarrow> confidence_ok x | None \<Rightarrow> False)
      | _ \<Rightarrow> False)"

definition as_varchar :: "nat \<Rightarrow> jsval \<Rightarrow> bool" where
  \<comment> \<open>a \<^verbatim>\<open>VARCHAR\<close> column of at least 50 characters: the text of a number or of a boolean
      always fits\<close>
  "as_varchar n v = (case v of JStr s \<Rightarrow> varchar_fits n s | _ \<Rightarrow> True)"

definition column_ok :: "bool \<Rightarrow> (jsval \<Rightarrow> bool) \<Rightarrow> jsval \<Rightarrow> bool" where
  "column_ok nullable typ v = (if is_null v then nullable else typ v)"

definition audit_logs_accepts :: "insert_params \<Rightarrow> bool" where
  \<comment> \<open>the \<^verbatim>\<open>CREATE TABLE\<close>, column by column (\<^verbatim>\<open>timestamp\<close>, \<^verbatim>\<open>path\<close> and \<^verbatim>\<open>metadata\<close>
      take whatever the gateway binds)\<close>
  "audit_logs_accepts p =
     (varchar_fits 255 (p_request_id p)
      \<and> varchar_fits 10 (p_http_method p)
      \<and> (case p_client_ip_hash p of Some h \<Rightarrow> varchar_fits 64 h | None \<Rightarrow> False)
      \<and> (case p_user_agent_hash p of Some h \<Rightarrow> varchar_fits 64 h | None \<Rightarrow> True)
      \<and> (case p_api_key_hash p of Some h \<Rightarrow> varchar_fits 64 h | None \<Rightarrow> True)
      \<and> column_ok True as_integer (p_request_size_bytes p)
      \<and> int4_range (p_response_status p)
      \<and> 100 \<le> p_response_status p \<and> p_response_status p < 600
      \<and> (case p_response_size_bytes p of Some n \<Rightarrow> int4_range (int n) | None \<Rightarrow> True)
      \<and> column_ok False as_integer (p_response_time_ms p)
      \<and> column_ok False as_boolean (p_is_blocked p)
      \<and> column_ok True (as_varchar 50) (p_block_reason p)
      \<and> column_ok True as_integer (p_detected_issues_count p)
      \<and> column_ok True as_confidence (p_security_confidence p)
      \<and> column_ok True (as_varchar 50) (p_llm_provider p)
      \<and> column_ok True (as_varchar 100) (p_llm_model p))"

text \<open>
  The audit store as the logger sees it: the parameter vectors of the inserts that went
  through, and whether a query reaches the server (\<^verbatim>\<open>PostgresClient.query\<close> throws when
  the pool is missing, and when the server refuses the statement).
\<close>

record pg_store =
  pg_up :: bool
  pg_rows :: "insert_params list"

definition insertAuditLog :: "pg_store \<Rightarrow> log_entry \<Rightarrow> pg_store option" where
  \<comment> \<open>\<open>None\<close>: the insert threw, and the table is as it was\<close>
  "insertAuditLog pg e =
     (if pg_up pg \<and> audit_logs_accepts (insertAuditLog_params e)
      then Some (pg\<lparr>pg_rows := pg_rows pg @ [insertAuditLog_params e]\<rparr>)
      else None)"

record audit_logger =
  al_enabled :: bool
  al_async :: bool
  al_queue :: "log_entry list"
  al_processing :: bool
  al_maxQueueSize :: nat

definition queueLog :: "audit_logger \<Rightarrow> log_entry \<Rightarrow> audit_logger" where
  \<comment> \<open>\<^verbatim>\<open>_queueLog\<close>: a full queue drops the entry\<close>
  "queueLog al e =
     (if length (al_queue al) \<ge> al_maxQueueSize al then al
      else al\<lparr>al_queue := al_queue al @ [e]\<rparr>)"

definition AuditLogger_log ::
  "int \<Rightarrow> audit_logger \<times> pg_store \<Rightarrow> request \<Rightarrow> reply \<Rightarrow> audit_options
     \<Rightarrow> audit_logger \<times> pg_store" where
  \<comment> \<open>\<^verbatim>\<open>AuditLogger.log\<close>; a failed insert is logged and swallowed\<close>
  "AuditLogger_log now st req rep opts =
     (case st of (al, pg) \<Rightarrow>
        if \<not> al_enabled al then (al, pg)
        else let e = logEntry now req rep opts in
             if al_async al then (queueLog al e, pg)
             else (case insertAuditLog pg e of Some pg' \<Rightarrow> (al, pg') | None \<Rightarrow> (al, pg)))"

fun insert_batch :: "pg_store \<Rightarrow> log_entry list \<Rightarrow> pg_store" where
  \<comment> \<open>the batch of \<^verbatim>\<open>_processQueue\<close>: each failed insert is caught on its own\<close>
  "insert_batch pg [] = pg"
| "insert_batch pg (e # es) =
     insert_batch (case insertAuditLog pg e of Some pg' \<Rightarrow> pg' | None \<Rightarrow> pg) es"

definition processQueue :: "audit_logger \<times> pg_store \<Rightarrow> audit_logger \<times> pg_store" where
  \<comment> \<open>\<^verbatim>\<open>_processQueue\<close>: up to ten entries leave the queue for the store\<close>
  "processQueue st =
     (case st of (al, pg) \<Rightarrow>
        if al_processing al \<or> al_queue al = [] then (al, pg)
        else (al\<lparr>al_queue := drop 10 (al_queue al), al_processing := False\<rparr>,
              insert_batch pg (take 10 (al_queue al))))"

section \<open>The rate-limit store (\<^verbatim>\<open>redis-client.js\<close>) and the rate limiter (\<^verbatim>\<open>rate-limiter.js\<close>)\<close>

text \<open>
  Redis as the limiter uses it: integer counters, each with an optional deadline (the
  second at which the key expires), and a connection that is up or down. Every wrapper
  of \<^verbatim>\<open>RedisClient\<close> throws when the connection is down; the commands follow the Redis
  documentation (\<^verbatim>\<open>INCR\<close> creates a missing key at 1, \<^verbatim>\<open>TTL\<close> is -1 without a deadline
  and -2 without a key, \<^verbatim>\<open>EXPIRE\<close> with a non-positive time deletes the key). Time is
  the clock in whole seconds.
\<close>

record redis =
  rd_connected :: bool
  rd_counts :: "string \<rightharpoonup> int"
  rd_expires_at :: "string \<rightharpoonup> int"

definition rd_live :: "redis \<Rightarrow> int \<Rightarrow> string \<Rightarrow> bool" where
  "rd_live r now k =
     (rd_counts r k \<noteq> None \<and>
      (case rd_expires_at r k of None \<Rightarrow> True | Some d \<Rightarrow> now < d))"

definition redis_incr :: "redis \<Rightarrow> int \<Rightarrow> string \<Rightarrow> int \<times> redis" where
  "redis_incr r now k =
     (case rd_counts r k of
        Some c \<Rightarrow>
          if rd_live r now k then (c + 1, r\<lparr>rd_counts := (rd_counts r)(k \<mapsto> c + 1)\<rparr>)
          else (1, r\<lparr>rd_counts := (rd_counts r)(k \<mapsto> 1),
                     rd_expires_at := (rd_expires_at r)(k := None)\<rparr>)
      | None \<Rightarrow>
          (1, r\<lparr>rd_counts := (rd_counts r)(k \<mapsto> 1),
                rd_expires_at := (rd_expires_at r)(k := None)\<rparr>))"

definition redis_ttl :: "redis \<Rightarrow> int \<Rightarrow> string \<Rightarrow> int" where
  "redis_ttl r now k =
     (if \<not> rd_live r now k then - 2
      else case rd_expires_at r k of None \<Rightarrow> - 1 | Some d \<Rightarrow> d - now)"

definition redis_expire :: "redis \<Rightarrow> int \<Rightarrow> string \<Rightarrow> int \<Rightarrow> redis" where
  "redis_expire r now k seconds =
     (if \<not> rd_live r now k then r
      else if seconds \<le> 0
        then r\<lparr>rd_counts := (rd_counts r)(k := None),
               rd_expires_at := (rd_expires_at r)(k := None)\<rparr>
      else r\<lparr>rd_expires_at := (rd_expires_at r)(k \<mapsto> now + seconds)\<rparr>)"

text \<open>Template literals print a number in decimal.\<close>

function show_nat :: "nat \<Rightarrow> string" where
  "show_nat n =
     (if n < 10 then [char_of (48 + n)]
      else show_nat (n div 10) @ [char_of (48 + n mod 10)])"
  by pat_completeness auto
termination
  by (relation "measure id") auto

declare show_nat.simps [simp del]

definition show_int :: "int \<Rightarrow> string" where
  "show_int i = (if i < 0 then CHR ''-'' # show_nat (nat (- i)) else show_nat (nat i))"

definition js_rem :: "int \<Rightarrow> int \<Rightarrow> int" where
  \<comment> \<open>\<^verbatim>\<open>a % b\<close> on integers, \<open>b \<noteq> 0\<close>: the remainder takes the sign of \<open>a\<close>.
      (\<^verbatim>\<open>a % 0\<close> is \<^verbatim>\<open>NaN\<close>, which this type does not hold: the theorems below take a
      positive window.)\<close>
  "js_rem a b = sgn a * (\<bar>a\<bar> mod \<bar>b\<bar>)"

record limit_cfg =
  lc_max :: int
  lc_window :: int

record rl_result =
  rl_allowed :: bool
  rl_limit :: "int option"
  rl_remaining :: "int option"
  rl_reset :: "int option"
  rl_retryAfter :: "int option"
  rl_type :: "string option"

record rate_limiter =
  rlm_enabled :: bool
  rlm_global :: limit_cfg
  rlm_ip :: limit_cfg
  rlm_apiKey :: limit_cfg

definition open_result :: rl_result where
  \<comment> \<open>what \<^verbatim>\<open>checkLimit\<close> answers when it is disabled, and when the store fails (fail open)\<close>
  "open_result =
     \<lparr> rl_allowed = True, rl_limit = None, rl_remaining = None, rl_reset = None,
       rl_retryAfter = None, rl_type = None \<rparr>"

definition bucket_key :: "string \<Rightarrow> string \<Rightarrow> int \<Rightarrow> string" where
  \<comment> \<open>\<^verbatim>\<open>`rate_limit:${type}:${identifier}:${windowStart}`\<close>\<close>
  "bucket_key type identifier windowStart =
     ''rate_limit:'' @ type @ '':'' @ identifier @ '':'' @ show_int windowStart"

definition checkBucket ::
  "redis \<Rightarrow> int \<Rightarrow> string \<Rightarrow> string \<Rightarrow> limit_cfg \<Rightarrow> rl_result option \<times> redis" where
  \<comment> \<open>\<^verbatim>\<open>_checkBucket\<close>; \<open>None\<close>: the store threw, and the error is rethrown\<close>
  "checkBucket r now type identifier limit =
     (let windowStart = now - js_rem now (lc_window limit);
          key = bucket_key type identifier windowStart
      in if \<not> rd_connected r then (None, r)
         else
           let (currentCount, r1) = redis_incr r now key;
               ttl = redis_ttl r1 now key;
               r2 = (if ttl = - 1 then redis_expire r1 now key (lc_window limit) else r1);
               allowed = (currentCount \<le> lc_max limit);
               remaining = max 0 (lc_max limit - currentCount);
               reset = windowStart + lc_window limit;
               retryAfter = (if allowed then None else Some (reset - now))
           in (Some \<lparr> rl_allowed = allowed, rl_limit = Some (lc_max limit),
                       rl_remaining = Some remaining, rl_reset = Some reset,
                       rl_retryAfter = retryAfter, rl_type = Some type \<rparr>,
               r2))"

definition checkLimit ::
  "rate_limiter \<Rightarrow> redis \<Rightarrow> int \<Rightarrow> string \<Rightarrow> string option \<Rightarrow> rl_result \<times> redis" where
  \<comment> \<open>\<^verbatim>\<open>checkLimit({ ip, apiKey })\<close>: global, then per IP, then per API key when one is
      presented; the first denial is returned at once; a store error fails open\<close>
  "checkLimit rl r now ip apiKey =
     (if \<not> rlm_enabled rl then (open_result, r)
      else
        case checkBucket r now ''global'' ''all'' (rlm_global rl) of
          (None, r1) \<Rightarrow> (open_result, r1)
        | (Some globalCheck, r1) \<Rightarrow>
            if \<not> rl_allowed globalCheck then (globalCheck, r1)
            else
              case checkBucket r1 now ''ip'' ip (rlm_ip rl) of
                (None, r2) \<Rightarrow> (open_result, r2)
              | (Some ipCheck, r2) \<Rightarrow>
                  if \<not> rl_allowed ipCheck then (ipCheck, r2)
                  else
                    case apiKey of
                      None \<Rightarrow> (ipCheck, r2)
                    | Some k \<Rightarrow>
                        if k = [] then (ipCheck, r2)
                        else
                          case checkBucket r2 now ''apikey'' k (rlm_apiKey rl) of
                            (None, r3) \<Rightarrow> (open_result, r3)
                          | (Some apiKeyCheck, r3) \<Rightarrow> (apiKeyCheck, r3))"

section \<open>The analyzer client (\<^verbatim>\<open>grpc-client.js\<close>)\<close>

text \<open>
  An attempt of \<^verbatim>\<open>_makeRequest\<close> either resolves with the response or rejects with an
  error, of which \<^verbatim>\<open>checkContent\<close> reads the gRPC status code. The analyzer is an
  oracle: \<open>rpc k\<close> is the outcome of attempt \<open>k\<close> (a client that cannot build its channel
  rejects like any other failure). The loop also returns what it did, in order: the
  attempts, the sleeps (in ms) and the reconnects.
\<close>

datatype rpc_error = InvalidArgument | DeadlineExceeded | Unavailable | OtherError

datatype rpc_event = Attempt nat | Sleep nat | Reconnect

definition backoff :: "nat \<Rightarrow> rpc_error \<Rightarrow> rpc_event list" where
  \<comment> \<open>the body of \<^verbatim>\<open>if (attempt < maxRetries)\<close>: the sleep of \<^verbatim>\<open>Math.pow(2, attempt) * 1000\<close>
      ms, then the reconnect when the connection was lost\<close>
  "backoff attempt error =
     Sleep (2 ^ attempt * 1000)
       # (if error = Unavailable \<or> error = DeadlineExceeded then [Reconnect] else [])"

function checkContent_loop ::
  "(nat \<Rightarrow> rpc_error + 'v) \<Rightarrow> int \<Rightarrow> nat \<Rightarrow> rpc_error option \<Rightarrow> rpc_event list
     \<Rightarrow> (rpc_error option + 'v) \<times> rpc_event list" where
  "checkContent_loop rpc maxRetries attempt lastError tr =
     (if int attempt \<le> maxRetries then
        (case rpc attempt of
           Inr response \<Rightarrow> (Inr response, tr @ [Attempt attempt])
         | Inl error \<Rightarrow>
             if error = InvalidArgument then (Inl (Some error), tr @ [Attempt attempt])
             else if int attempt < maxRetries then
               checkContent_loop rpc maxRetries (attempt + 1) (Some error)
                 (tr @ Attempt attempt # backoff attempt error)
             else
               checkContent_loop rpc maxRetries (attempt + 1) (Some error)
                 (tr @ [Attempt attempt]))
      else (Inl lastError, tr))"
  by pat_completeness auto
termination
  by (relation "measure (\<lambda>(rpc, maxRetries, attempt, lastError, tr).
                  nat (maxRetries + 1 - int attempt))") auto

declare checkContent_loop.simps [simp del]

definition checkContent ::
  "(nat \<Rightarrow> rpc_error + 'v) \<Rightarrow> int \<Rightarrow> (rpc_error option + 'v) \<times> rpc_event list" where
  \<comment> \<open>\<open>Inl e\<close>: \<^verbatim>\<open>throw e\<close> (\<open>None\<close> is the initial \<^verbatim>\<open>lastError = null\<close>)\<close>
  "checkContent rpc maxRetries = checkContent_loop rpc maxRetries 0 None []"

definition attempts :: "rpc_event list \<Rightarrow> nat" where
  "attempts tr = length (filter (\<lambda>ev. case ev of Attempt k \<Rightarrow> True | _ \<Rightarrow> False) tr)"

record detected_issue =
  di_type :: string
  di_text :: string
  di_start :: int
  di_end :: int
  di_confidence :: real
  di_replacement :: string

record verdict =
  v_is_safe :: bool
  v_redacted_text :: string
  v_detected_issues :: "detected_issue list"
  v_confidence_score :: real
  v_request_id :: string

record check_request =
  cr_content :: string
  cr_request_id :: string
  cr_metadata :: "(string \<times> string) list"

section \<open>Configuration (\<^verbatim>\<open>config.js\<close>) and the plugins\<close>

record gateway_config =
  cfg_rateLimiting :: bool
  cfg_auditLogging :: bool
  cfg_auditAsync :: bool
  cfg_minContentLength :: int
  cfg_maxContentLength :: int
  cfg_maxRetries :: int
  cfg_global :: int
  cfg_globalWindow :: int
  cfg_perIp :: int
  cfg_perIpWindow :: int
  cfg_perApiKey :: int
  cfg_perApiKeyWindow :: int

definition new_RateLimiter :: "gateway_config \<Rightarrow> rate_limiter" where
  "new_RateLimiter cfg =
     \<lparr> rlm_enabled = cfg_rateLimiting cfg,
       rlm_global = \<lparr> lc_max = cfg_global cfg, lc_window = cfg_globalWindow cfg \<rparr>,
       rlm_ip = \<lparr> lc_max = cfg_perIp cfg, lc_window = cfg_perIpWindow cfg \<rparr>,
       rlm_apiKey = \<lparr> lc_max = cfg_perApiKey cfg, lc_window = cfg_perApiKeyWindow cfg \<rparr> \<rparr>"

definition new_AuditLogger :: "gateway_config \<Rightarrow> audit_logger" where
  "new_AuditLogger cfg =
     \<lparr> al_enabled = cfg_auditLogging cfg, al_async = cfg_auditAsync cfg, al_queue = [],
       al_processing = False, al_maxQueueSize = 1000 \<rparr>"

subsection \<open>\<^verbatim>\<open>plugins/request-id.js\<close>\<close>

definition requestId_onRequest :: "string \<Rightarrow> request \<Rightarrow> reply \<Rightarrow> request \<times> reply" where
  \<comment> \<open>\<open>fresh\<close> is what the generator would return\<close>
  "requestId_onRequest fresh req rep =
     (let requestId = (case rq_headers req ''x-request-id'' of
                         Some h \<Rightarrow> if h \<noteq> [] then h else fresh
                       | None \<Rightarrow> fresh)
      in (req\<lparr>rq_id := requestId\<rparr>, header rep ''x-request-id'' (HStr requestId)))"

subsection \<open>\<^verbatim>\<open>plugins/rate-limit.js\<close>\<close>

definition addRateLimitHeaders :: "reply \<Rightarrow> rl_result \<Rightarrow> reply" where
  "addRateLimitHeaders rep rateLimit =
     (let rep1 = (case rl_limit rateLimit of
                    Some l \<Rightarrow> header rep ''X-RateLimit-Limit'' (HNum l) | None \<Rightarrow> rep);
          rep2 = (case rl_remaining rateLimit of
                    Some m \<Rightarrow> header rep1 ''X-RateLimit-Remaining'' (HNum m) | None \<Rightarrow> rep1)
      in case rl_reset rateLimit of
           Some t \<Rightarrow> header rep2 ''X-RateLimit-Reset'' (HNum t) | None \<Rightarrow> rep2)"

definition rateLimit_onRequest ::
  "rate_limiter \<Rightarrow> int \<Rightarrow> redis \<Rightarrow> request \<Rightarrow> reply \<Rightarrow> redis \<times> reply" where
  \<comment> \<open>the \<^verbatim>\<open>onRequest\<close> hook; \<open>now_ms\<close> is \<^verbatim>\<open>Date.now()\<close>. A denied request is answered
      here (\<open>rp_sent\<close>), which ends the hook chain.\<close>
  "rateLimit_onRequest limiter now_ms rd req rep =
     (if rq_url req = ''/health'' \<or> rq_url req = ''/ready'' then (rd, rep)
      else
        let ip = rq_ip req;
            apiKey = extractApiKey (rq_headers req);
            (rateLimit, rd') = checkLimit limiter rd (now_ms div 1000) ip apiKey;
            rep1 = addRateLimitHeaders rep rateLimit
        in if \<not> rl_allowed rateLimit then
             let rep2 = (case rl_retryAfter rateLimit of
                           Some ra \<Rightarrow> if ra \<noteq> 0 then header rep1 ''Retry-After'' (HNum ra) else rep1
                         | None \<Rightarrow> rep1)
             in (rd', rep2\<lparr> rp_statusCode := 429, rp_sent := True,
                    rp_body := Some (ErrorBody
                      \<lparr> eb_type = ''RateLimitExceeded'',
                        eb_message = ''Too many requests. Please try again later.'',
                        eb_requestId = rq_id req,
                        eb_timestamp = now_ms,
                        eb_details = RateLimitDetails (rl_limit rateLimit) (rl_reset rateLimit)
                                       (rl_retryAfter rateLimit) \<rparr>) \<rparr>)
           else (rd', rep1))"

subsection \<open>\<^verbatim>\<open>plugins/audit-log.js\<close>\<close>

definition initial_auditContext :: audit_options where
  "initial_auditContext =
     \<lparr> o_is_blocked = JBool False, o_block_reason = JNull,
       o_detected_issues_count = JNum 0, o_security_confidence = JNull,
       o_llm_provider = JNull, o_llm_model = JUndefined, o_metadata = Some [] \<rparr>"

definition auditLog_onRequest :: "request \<Rightarrow> request" where
  "auditLog_onRequest req = req\<lparr>rq_auditContext := Some initial_auditContext\<rparr>"

definition auditLog_onResponse ::
  "int \<Rightarrow> audit_logger \<times> pg_store \<Rightarrow> request \<Rightarrow> reply \<Rightarrow> audit_logger \<times> pg_store" where
  \<comment> \<open>\<^verbatim>\<open>auditLogger.log(request, reply, request.auditContext || {})\<close>, but for \<^verbatim>\<open>/health\<close>\<close>
  "auditLog_onResponse now_ms st req rep =
     (if rq_url req = ''/health'' then st
      else AuditLogger_log now_ms st req rep
             (case rq_auditContext req of Some ctx \<Rightarrow> ctx | None \<Rightarrow> empty_options))"

definition setAuditContext_blocked :: "request \<Rightarrow> jsval \<Rightarrow> jsval \<Rightarrow> jsval \<Rightarrow> jsval \<Rightarrow> request" where
  \<comment> \<open>\<^verbatim>\<open>request.setAuditContext({is_blocked, block_reason, detected_issues_count,
      security_confidence})\<close>: the four keys are spread over the context\<close>
  "setAuditContext_blocked req blocked reason n conf =
     req\<lparr>rq_auditContext :=
       Some ((case rq_auditContext req of Some ctx \<Rightarrow> ctx | None \<Rightarrow> empty_options)
               \<lparr> o_is_blocked := blocked, o_block_reason := reason,
                 o_detected_issues_count := n, o_security_confidence := conf \<rparr>)\<rparr>"

subsection \<open>\<^verbatim>\<open>plugins/error-handler.js\<close>\<close>

definition error_reply :: "reply \<Rightarrow> int \<Rightarrow> string \<Rightarrow> string \<Rightarrow> string \<Rightarrow> int \<Rightarrow> reply" where
  \<comment> \<open>the error handler's answer to a thrown error that carries no details\<close>
  "error_reply rep statusCode name message requestId now_ms =
     rep\<lparr> rp_statusCode := statusCode, rp_sent := True,
          rp_body := Some (ErrorBody
            \<lparr> eb_type = name, eb_message = message, eb_requestId = requestId,
              eb_timestamp = now_ms, eb_details = NoDetails \<rparr>) \<rparr>"

section \<open>The routes\<close>

subsection \<open>\<^verbatim>\<open>POST /v1/chat/completions\<close> (\<^verbatim>\<open>routes/chat.js\<close>)\<close>

definition join_lines :: "string list \<Rightarrow> string" where
  \<comment> \<open>\<^verbatim>\<open>xs.join('\n')\<close>\<close>
  "join_lines xs = (case xs of [] \<Rightarrow> [] | y # ys \<Rightarrow> foldl (\<lambda>acc z. acc @ CHR 0x0A # z) y ys)"

definition format_issue :: "detected_issue \<Rightarrow> formatted_issue" where
  "format_issue issue =
     \<lparr> fi_type = di_type issue, fi_text = di_text issue, fi_start = di_start issue,
       fi_end = di_end issue, fi_confidence = di_confidence issue \<rparr>"

definition service_unavailable :: "request \<Rightarrow> reply \<Rightarrow> int \<Rightarrow> reply" where
  "service_unavailable req rep now_ms =
     error_reply rep 503 ''ServiceUnavailableError''
       ''Security analysis service is temporarily unavailable. Please try again later.''
       (rq_id req) now_ms"

definition analysis_call :: "request \<Rightarrow> chat_body \<Rightarrow> check_request" where
  \<comment> \<open>what the handler passes to \<^verbatim>\<open>analyzerClient.checkContent\<close>: the user messages joined
      by newlines, the request id, and the metadata (the route's schema fills in the model
      \<^verbatim>\<open>gpt-4\<close> when the body names none, so a validated body always has one)\<close>
  "analysis_call req b =
     \<lparr> cr_content =
         join_lines (map m_content (filter (\<lambda>msg. m_role msg = ''user'') (cb_messages b))),
       cr_request_id = rq_id req,
       cr_metadata =
         [(''client_ip'', rq_ip req),
          (''user_agent'', (if user_agent_of req \<noteq> [] then user_agent_of req else ''unknown'')),
          (''model'',
             (case cb_model b of
                Some m \<Rightarrow> if m \<noteq> [] then m else ''unknown''
              | None \<Rightarrow> ''unknown''))] \<rparr>"

definition chat_handler ::
  "gateway_config \<Rightarrow> (check_request \<Rightarrow> nat \<Rightarrow> rpc_error + verdict) \<Rightarrow> int
     \<Rightarrow> request \<Rightarrow> reply \<Rightarrow> request \<times> reply" where
  \<comment> \<open>The handler. A request whose body fails the route's schema never reaches it: Fastify
      answers 400 (that body is not modelled). String lengths count the characters of the
      model's strings. \<^verbatim>\<open>request.setAuditContext\<close> exists only when the audit plugin is registered;
      without it the call throws inside the \<^verbatim>\<open>try\<close>, and the \<^verbatim>\<open>catch\<close> answers 503. The
      bodies are the objects the handler returns; the route declares a response schema for
      400 and 501 only, and the serialiser drops the \<^verbatim>\<open>details\<close> of a 501 that the schema
      does not list.\<close>
  "chat_handler cfg analyzer now_ms req rep =
     (case rq_body req of
        None \<Rightarrow> (req, rep\<lparr>rp_statusCode := 400, rp_sent := True, rp_body := Some OtherBody\<rparr>)
      | Some b \<Rightarrow>
          let messages = cb_messages b;
              totalContentLength = sum_list (map (\<lambda>msg. int (length (m_content msg))) messages)
          in
          if messages = [] then
            (req, error_reply rep 400 ''ValidationError''
                    ''Messages array is required and must not be empty'' (rq_id req) now_ms)
          else if totalContentLength < cfg_minContentLength cfg then
            (req, error_reply rep 400 ''ValidationError''
                    (''Content too short. Minimum length: ''
                       @ show_int (cfg_minContentLength cfg) @ '' characters'') (rq_id req) now_ms)
          else if totalContentLength > cfg_maxContentLength cfg then
            (req, error_reply rep 400 ''ValidationError''
                    (''Content too long. Maximum length: ''
                       @ show_int (cfg_maxContentLength cfg) @ '' characters'') (rq_id req) now_ms)
          else
            case fst (checkContent (analyzer (analysis_call req b)) (cfg_maxRetries cfg)) of
              Inl error \<Rightarrow> (req, service_unavailable req rep now_ms)
            | Inr analysisResult \<Rightarrow>
                if \<not> v_is_safe analysisResult then
                  if \<not> cfg_auditLogging cfg then (req, service_unavailable req rep now_ms)
                  else
                    (setAuditContext_blocked req (JBool True) (JStr ''CONTENT_POLICY_VIOLATION'')
                       (JNum (real (length (v_detected_issues analysisResult))))
                       (JNum (v_confidence_score analysisResult)),
                     rep\<lparr> rp_statusCode := 403, rp_sent := True,
                          rp_body := Some (ErrorBody
                            \<lparr> eb_type = ''ContentPolicyViolation'',
                              eb_message =
                                ''Content contains potential security issues and was blocked'',
                              eb_requestId = rq_id req,
                              eb_timestamp = now_ms,
                              eb_details =
                                BlockedDetails False
                                  (map format_issue (v_detected_issues analysisResult))
                                  (v_confidence_score analysisResult)
                                  (take 100 (v_redacted_text analysisResult)) \<rparr>) \<rparr>)
                else
                  (req,
                   rep\<lparr> rp_statusCode := 501, rp_sent := True,
                        rp_body := Some (ErrorBody
                          \<lparr> eb_type = ''NotImplementedError'',
                            eb_message =
                              ''Content passed security checks, but LLM integration is not yet implemented. This will be added in future phases.'',
                            eb_requestId = rq_id req,
                            eb_timestamp = now_ms,
                            eb_details =
                              SecurityCheckDetails True (v_confidence_score analysisResult)
                                (length (v_detected_issues analysisResult)) \<rparr>) \<rparr>))"

subsection \<open>\<^verbatim>\<open>GET /ready\<close> (\<^verbatim>\<open>routes/ready.js\<close>)\<close>

text \<open>
  \<^verbatim>\<open>analyzerClient.healthCheck()\<close> resolves with the decoded \<^verbatim>\<open>HealthCheckResponse\<close> or
  throws; its \<^verbatim>\<open>status\<close> field is kept as the JavaScript value the decoder delivers
  (\<^verbatim>\<open>grpc-client.js\<close> loads the proto with \<^verbatim>\<open>enums: String\<close>, so an enum arrives as its
  name). \<^verbatim>\<open>redisClient.healthCheck()\<close> is true when the client is connected and answers
  the ping; \<^verbatim>\<open>pgClient.healthCheck()\<close> is true when the pool answers \<^verbatim>\<open>SELECT 1\<close>. The
  handler takes the three dependencies as they are and reads what the source reads. Its
  body is the object it returns; the route's schema for 503 declares \<^verbatim>\<open>checks\<close> as a bare
  object, so the serialised 503 body does not show the three booleans.
\<close>

record health_response =
  hr_status :: jsval
  hr_version :: string
  hr_uptime_seconds :: jsval

definition redis_healthCheck :: "redis \<Rightarrow> bool" where
  "redis_healthCheck rd = rd_connected rd"

definition pg_healthCheck :: "pg_store \<Rightarrow> bool" where
  "pg_healthCheck pg = pg_up pg"

definition ready_handler ::
  "(rpc_error + health_response) \<Rightarrow> redis \<Rightarrow> pg_store \<Rightarrow> int \<Rightarrow> reply \<Rightarrow> reply" where
  "ready_handler analyzer_health rd pg now_ms rep =
     (let analyzer_ok = (case analyzer_health of
                           Inr healthResult \<Rightarrow> hr_status healthResult = JNum 1
                         | Inl error \<Rightarrow> False);
          redis_ok = redis_healthCheck rd;
          postgres_ok = True;
          isReady = (analyzer_ok \<and> redis_ok \<and> postgres_ok)
      in if \<not> isReady then
           rep\<lparr> rp_statusCode := 503, rp_sent := True,
                rp_body := Some (ReadyBody
                  \<lparr> rb_status = ''not_ready'', rb_analyzer = analyzer_ok, rb_redis = redis_ok,
                    rb_postgres = postgres_ok, rb_timestamp = now_ms,
                    rb_message = Some ''Service dependencies are not ready'' \<rparr>) \<rparr>
         else
           rep\<lparr> rp_sent := True,
                rp_body := Some (ReadyBody
                  \<lparr> rb_status = ''ready'', rb_analyzer = analyzer_ok, rb_redis = redis_ok,
                    rb_postgres = postgres_ok, rb_timestamp = now_ms,
                    rb_message = None \<rparr>) \<rparr>)"

definition decode_serving_status :: "nat \<Rightarrow> jsval" where
  \<comment> \<open>the proto's \<^verbatim>\<open>ServingStatus\<close> as \<^verbatim>\<open>enums: String\<close> decodes it\<close>
  "decode_serving_status n =
     (if n = 0 then JStr ''UNKNOWN'' else if n = 1 then JStr ''SERVING''
      else if n = 2 then JStr ''NOT_SERVING'' else if n = 3 then JStr ''SERVICE_UNKNOWN''
      else JNum (real n))"

section \<open>The request lifecycle (\<^verbatim>\<open>index.js\<close>)\<close>

text \<open>
  The \<^verbatim>\<open>onRequest\<close> hooks run in the order \<^verbatim>\<open>createServer\<close> registers them: request id,
  rate limit (when the feature is on), audit context (when the feature is on), start
  time; every hook is taken to apply to every route. A hook that sends the reply ends the
  chain: the later hooks and the handler do not run. The \<^verbatim>\<open>onResponse\<close> hook of the audit
  plugin runs for every request (the metrics hook and the response-time header are left
  out). \<open>t_req\<close> and \<open>t_resp\<close> are
  \<^verbatim>\<open>Date.now()\<close> when the request arrives and when the response has been sent.
\<close>

record gateway_state =
  gs_redis :: redis
  gs_audit :: "audit_logger \<times> pg_store"

definition serve ::
  "gateway_config \<Rightarrow> (request \<Rightarrow> reply \<Rightarrow> request \<times> reply) \<Rightarrow> string \<Rightarrow> int \<Rightarrow> int
     \<Rightarrow> gateway_state \<Rightarrow> request \<Rightarrow> gateway_state \<times> reply" where
  "serve cfg handler fresh t_req t_resp gs req0 =
     (let (req1, rep1) = requestId_onRequest fresh req0 blank_reply;
          (rd, rep2) = (if cfg_rateLimiting cfg
                        then rateLimit_onRequest (new_RateLimiter cfg) t_req (gs_redis gs) req1 rep1
                        else (gs_redis gs, rep1));
          (req3, rep3) =
            (if rp_sent rep2 then (req1, rep2)
             else handler
                    ((if cfg_auditLogging cfg then auditLog_onRequest req1 else req1)
                       \<lparr>rq_startTime := Some t_req\<rparr>)
                    rep2);
          audit' = (if cfg_auditLogging cfg
                    then auditLog_onResponse t_resp (gs_audit gs) req3 rep3
                    else gs_audit gs)
      in (gs\<lparr>gs_redis := rd, gs_audit := audit'\<rparr>, rep3))"

definition ok_handler :: "request \<Rightarrow> reply \<Rightarrow> request \<times> reply" where
  \<comment> \<open>a route that answers 200, as \<^verbatim>\<open>GET /v1/models\<close> and \<^verbatim>\<open>GET /\<close> do\<close>
  "ok_handler req rep = (req, rep\<lparr>rp_sent := True, rp_body := Some OtherBody\<rparr>)"

fun serve_all ::
  "gateway_config \<Rightarrow> (request \<Rightarrow> reply \<Rightarrow> request \<times> reply) \<Rightarrow> gateway_state
     \<Rightarrow> (int \<times> request) list \<Rightarrow> gateway_state \<times> reply list" where
  \<comment> \<open>consecutive requests, each with its arrival time\<close>
  "serve_all cfg handler gs [] = (gs, [])"
| "serve_all cfg handler gs ((t, req) # rest) =
     (let (gs1, rep) = serve cfg handler (rq_id req) t t gs req;
          (gs2, reps) = serve_all cfg handler gs1 rest
      in (gs2, rep # reps))"

section \<open>Audit statistics (\<^verbatim>\<open>001_create_audit_logs.sql\<close>, \<^verbatim>\<open>pg-client.js\<close>, \<^verbatim>\<open>routes/admin.js\<close>)\<close>

text \<open>
  A row of \<^verbatim>\<open>audit_logs\<close> with the SQL types of its columns (\<open>None\<close> is \<^verbatim>\<open>NULL\<close>).
\<close>

record audit_row =
  r_id :: nat
  r_request_id :: string
  r_timestamp :: int
  r_http_method :: string
  r_path :: string
  r_client_ip_hash :: string
  r_user_agent_hash :: "string option"
  r_api_key_hash :: "string option"
  r_request_size_bytes :: "int option"
  r_response_status :: int
  r_response_size_bytes :: "int option"
  r_response_time_ms :: int
  r_is_blocked :: bool
  r_block_reason :: "string option"
  r_detected_issues_count :: "int option"
  r_security_confidence :: "real option"
  r_llm_provider :: "string option"
  r_llm_model :: "string option"
  r_metadata :: "jsobj option"
  r_retention_until :: int

record audit_stats =
  st_total_requests :: int
  st_blocked_requests :: "int option"
  st_block_rate :: "real option"
  st_avg_response_time_ms :: "real option"
  st_unique_clients :: int
  st_requests_by_status :: "(string \<rightharpoonup> int) option"

text \<open>
  The stored function \<^verbatim>\<open>get_audit_stats\<close> is PL/pgSQL: its one statement is analysed when
  the function is called, and only then executed. The analysis binds every unqualified
  column reference to the one relation of the \<^verbatim>\<open>FROM\<close> list that has a column of that
  name; a name that two of them have is refused (\<^verbatim>\<open>column reference ... is ambiguous\<close>).
  The sub-select reads from \<^verbatim>\<open>audit_logs\<close> alone; the outer select reads from the
  sub-select, named \<^verbatim>\<open>status_counts\<close>, cross-joined with \<^verbatim>\<open>audit_logs\<close>. (No parameter or
  output column of the function has the name of a column, so the variables of the
  function add no conflict and are left out.)
\<close>

datatype sql_error = UndefinedColumn string | AmbiguousColumn string

definition audit_logs_columns :: "string list" where
  \<comment> \<open>the \<^verbatim>\<open>CREATE TABLE\<close>\<close>
  "audit_logs_columns =
     [''id'', ''request_id'', ''timestamp'', ''method'', ''path'', ''client_ip_hash'',
      ''user_agent_hash'', ''api_key_hash'', ''request_size_bytes'', ''response_status'',
      ''response_size_bytes'', ''response_time_ms'', ''is_blocked'', ''block_reason'',
      ''detected_issues_count'', ''security_confidence'', ''llm_provider'', ''llm_model'',
      ''metadata'', ''retention_until'']"

definition status_counts_columns :: "string list" where
  \<comment> \<open>\<^verbatim>\<open>SELECT response_status, COUNT(*) as status_count\<close>\<close>
  "status_counts_columns = [''response_status'', ''status_count'']"

definition resolve_column :: "(string \<times> string list) list \<Rightarrow> string \<Rightarrow> sql_error + string" where
  \<comment> \<open>the relation an unqualified column reference binds to\<close>
  "resolve_column from_list c =
     (case filter (\<lambda>rel. c \<in> set (snd rel)) from_list of
        [] \<Rightarrow> Inl (UndefinedColumn c)
      | [rel] \<Rightarrow> Inr (fst rel)
      | rel # rel' # rels \<Rightarrow> Inl (AmbiguousColumn c))"

fun resolve_columns ::
  "(string \<times> string list) list \<Rightarrow> string list \<Rightarrow> sql_error + (string \<times> string) list" where
  \<comment> \<open>the references of a select in the order they are analysed; the first that fails
      is the error of the statement\<close>
  "resolve_columns from_list [] = Inr []"
| "resolve_columns from_list (c # cs) =
     (case resolve_column from_list c of
        Inl err \<Rightarrow> Inl err
      | Inr rel \<Rightarrow>
          (case resolve_columns from_list cs of
             Inl err \<Rightarrow> Inl err
           | Inr bound \<Rightarrow> Inr ((c, rel) # bound)))"

definition sub_select_references :: "string list" where
  \<comment> \<open>\<^verbatim>\<open>SELECT response_status, COUNT(*) ... WHERE timestamp >= ... AND timestamp <= ...
      GROUP BY response_status\<close>\<close>
  "sub_select_references = [''response_status'', ''timestamp'', ''timestamp'', ''response_status'']"

definition outer_select_references :: "string list" where
  \<comment> \<open>the select list of the outer query, in its order: \<^verbatim>\<open>is_blocked\<close> (twice),
      \<^verbatim>\<open>response_time_ms\<close>, \<^verbatim>\<open>client_ip_hash\<close>, and the two arguments of
      \<^verbatim>\<open>jsonb_object_agg\<close>; its \<^verbatim>\<open>WHERE\<close> qualifies its references\<close>
  "outer_select_references =
     [''is_blocked'', ''is_blocked'', ''response_time_ms'', ''client_ip_hash'',
      ''response_status'', ''status_count'']"

text \<open>
  The statement as it would run once analysed: the sub-select groups the rows of the
  range by status; its result is cross-joined with \<^verbatim>\<open>audit_logs\<close>, filtered to the range
  again; the aggregates run over the joined rows (an aggregate other than \<^verbatim>\<open>COUNT\<close> over
  no rows is \<^verbatim>\<open>NULL\<close>). \<open>status_of\<close> is the relation that the analysis bound
  \<^verbatim>\<open>response_status\<close> to; every other column exists in one relation only.
\<close>

definition in_range :: "int \<Rightarrow> int \<Rightarrow> audit_row list \<Rightarrow> audit_row list" where
  "in_range p_start_time p_end_time audit_logs =
     filter (\<lambda>r. r_timestamp r \<ge> p_start_time \<and> r_timestamp r \<le> p_end_time) audit_logs"

definition status_counts :: "int \<Rightarrow> int \<Rightarrow> audit_row list \<Rightarrow> (int \<times> int) list" where
  \<comment> \<open>\<^verbatim>\<open>SELECT response_status, COUNT(*) ... GROUP BY response_status\<close>\<close>
  "status_counts p_start_time p_end_time audit_logs =
     (let rows = in_range p_start_time p_end_time audit_logs
      in map (\<lambda>s. (s, int (length (filter (\<lambda>r. r_response_status r = s) rows))))
             (remdups (map r_response_status rows)))"

definition run_stats_query :: "string \<Rightarrow> audit_row list \<Rightarrow> int \<Rightarrow> int \<Rightarrow> audit_stats" where
  "run_stats_query status_of audit_logs p_start_time p_end_time =
     (let joined = List.product (status_counts p_start_time p_end_time audit_logs)
                                (in_range p_start_time p_end_time audit_logs);
          n = int (length joined);
          blocked = sum_list (map (\<lambda>j. if r_is_blocked (snd j) then 1 else 0) joined);
          status = (\<lambda>j. if status_of = ''status_counts'' then fst (fst j)
                         else r_response_status (snd j))
      in \<lparr> st_total_requests = n,
           st_blocked_requests = (if joined = [] then None else Some blocked),
           st_block_rate =
             (if joined = [] then None
              else Some (numeric_round2 (real_of_int blocked / real_of_int n * 100))),
           st_avg_response_time_ms =
             (if joined = [] then None
              else Some (numeric_round2
                     (real_of_int (sum_list (map (\<lambda>j. r_response_time_ms (snd j)) joined))
                        / real_of_int n))),
           st_unique_clients = int (length (remdups (map (\<lambda>j. r_client_ip_hash (snd j)) joined))),
           st_requests_by_status =
             (if joined = [] then None
              else Some (map_of (rev (map (\<lambda>j. (show_int (status j), snd (fst j))) joined)))) \<rparr>)"

definition get_audit_stats :: "audit_row list \<Rightarrow> int \<Rightarrow> int \<Rightarrow> sql_error + audit_stats" where
  \<comment> \<open>a call of the stored function: \<open>Inl\<close> is the error the server raises\<close>
  "get_audit_stats audit_logs p_start_time p_end_time =
     (case resolve_columns [(''audit_logs'', audit_logs_columns)] sub_select_references of
        Inl err \<Rightarrow> Inl err
      | Inr bound \<Rightarrow>
          (case resolve_columns
                  [(''status_counts'', status_counts_columns), (''audit_logs'', audit_logs_columns)]
                  outer_select_references of
             Inl err \<Rightarrow> Inl err
           | Inr bound' \<Rightarrow>
               Inr (run_stats_query
                      (case map_of bound' ''response_status'' of Some rel \<Rightarrow> rel | None \<Rightarrow> [])
                      audit_logs p_start_time p_end_time)))"

definition getAuditStats ::
  "audit_row list \<Rightarrow> int \<Rightarrow> int option \<Rightarrow> int option \<Rightarrow> sql_error + audit_stats" where
  \<comment> \<open>\<^verbatim>\<open>PostgresClient.getAuditStats(startTime, endTime)\<close>; \<open>now_ms\<close> is \<^verbatim>\<open>Date.now()\<close>, a
      missing bound defaults to the last 24 hours. \<open>Inl\<close>: the query threw, and the method
      throws the same error again; \<open>Inr\<close>: the one row of the result.\<close>
  "getAuditStats audit_logs now_ms startTime endTime =
     get_audit_stats audit_logs
       (case startTime of Some t \<Rightarrow> t | None \<Rightarrow> now_ms - 24 * 60 * 60 * 1000)
       (case endTime of Some t \<Rightarrow> t | None \<Rightarrow> now_ms)"

record stats_answer =
  sa_statusCode :: int
  sa_stats :: "audit_stats option"
  sa_error :: "(string \<times> string) option"

definition audit_stats_route :: "audit_row list \<Rightarrow> int \<Rightarrow> int option \<Rightarrow> int option \<Rightarrow> stats_answer" where
  \<comment> \<open>\<^verbatim>\<open>GET /admin/audit-stats\<close>: the statistics, or 500 with the error's type and message
      when \<^verbatim>\<open>getAuditStats\<close> throws\<close>
  "audit_stats_route audit_logs now_ms start_time end_time =
     (case getAuditStats audit_logs now_ms start_time end_time of
        Inr stats \<Rightarrow> \<lparr> sa_statusCode = 200, sa_stats = Some stats, sa_error = None \<rparr>
      | Inl error \<Rightarrow>
          \<lparr> sa_statusCode = 500, sa_stats = None,
            sa_error = Some (''DatabaseError'', ''Failed to get audit statistics'') \<rparr>)"

section \<open>Concrete inputs\<close>

text \<open>
  A request, a reply and a logger in synchronous mode, used where a statement is
  evaluated on a concrete input.
\<close>

definition example_request :: request where
  "example_request =
     \<lparr> rq_id = ''req-1'', rq_http_method = ''POST'', rq_url = ''/v1/chat/completions'',
       rq_ip = ''203.0.113.7'',
       rq_headers = [''user-agent'' \<mapsto> ''curl/8.4.0'', ''x-api-key'' \<mapsto> ''sk-secret''],
       rq_startTime = Some 1000, rq_body = None,
       rq_route_url = Some ''/v1/chat/completions'', rq_auditContext = None \<rparr>"

definition example_reply :: reply where
  "example_reply =
     \<lparr> rp_statusCode = 403, rp_headers = [], rp_sent = True, rp_body = None,
       rp_payload = None \<rparr>"

definition sync_logger :: "audit_logger \<times> pg_store" where
  "sync_logger =
     (\<lparr> al_enabled = True, al_async = False, al_queue = [], al_processing = False,
        al_maxQueueSize = 1000 \<rparr>,
      \<lparr> pg_up = True, pg_rows = [] \<rparr>)"

definition async_logger :: "audit_logger \<times> pg_store" where
  \<comment> \<open>the logger as \<^verbatim>\<open>config.js\<close> sets it up by default: entries go through the queue\<close>
  "async_logger =
     (\<lparr> al_enabled = True, al_async = True, al_queue = [], al_processing = False,
        al_maxQueueSize = 1000 \<rparr>,
      \<lparr> pg_up = True, pg_rows = [] \<rparr>)"

definition example_config :: gateway_config where
  \<comment> \<open>the defaults of \<^verbatim>\<open>config.js\<close>, with the global tier set to 2 requests per 60 s and the
      audit logger in synchronous mode\<close>
  "example_config =
     \<lparr> cfg_rateLimiting = True, cfg_auditLogging = True, cfg_auditAsync = False,
       cfg_minContentLength = 1, cfg_maxContentLength = 10240, cfg_maxRetries = 3,
       cfg_global = 2, cfg_globalWindow = 60,
       cfg_perIp = 100, cfg_perIpWindow = 3600,
       cfg_perApiKey = 1000, cfg_perApiKeyWindow = 3600 \<rparr>"

definition exhausted_store :: redis where
  \<comment> \<open>the store at second 125, when the global bucket of the window starting at 120 has
      already counted two requests\<close>
  "exhausted_store =
     \<lparr> rd_connected = True,
       rd_counts = [bucket_key ''global'' ''all'' 120 \<mapsto> 2],
       rd_expires_at = [bucket_key ''global'' ''all'' 120 \<mapsto> 180] \<rparr>"

definition caller :: "string \<Rightarrow> request" where
  \<comment> \<open>\<^verbatim>\<open>GET /v1/models\<close> from the given address, with no headers (so no API key)\<close>
  "caller ip =
     \<lparr> rq_id = [], rq_http_method = ''GET'', rq_url = ''/v1/models'', rq_ip = ip,
       rq_headers = Map.empty, rq_startTime = None, rq_body = None,
       rq_route_url = Some ''/v1/models'', rq_auditContext = None \<rparr>"

definition fresh_gateway :: gateway_state where
  \<comment> \<open>a gateway whose rate-limit store holds no counter yet\<close>
  "fresh_gateway =
     \<lparr> gs_redis = \<lparr> rd_connected = True, rd_counts = Map.empty, rd_expires_at = Map.empty \<rparr>,
       gs_audit = sync_logger \<rparr>"

definition ssn_request :: request where
  "ssn_request =
     \<lparr> rq_id = ''req-2'', rq_http_method = ''POST'', rq_url = ''/v1/chat/completions'',
       rq_ip = ''203.0.113.7'', rq_headers = [''user-agent'' \<mapsto> ''curl/8.4.0''],
       rq_startTime = Some 1000,
       rq_body = Some \<lparr> cb_messages = [\<lparr> m_role = ''user'', m_content = ''My SSN is 123-45-6789'' \<rparr>],
                          cb_model = Some ''gpt-4'' \<rparr>,
       rq_route_url = Some ''/v1/chat/completions'',
       rq_auditContext = Some initial_auditContext \<rparr>"

definition ssn_verdict :: verdict where
  "ssn_verdict =
     \<lparr> v_is_safe = False, v_redacted_text = ''My SSN is [SSN]'',
       v_detected_issues =
         [\<lparr> di_type = ''SSN'', di_text = ''123-45-6789'', di_start = 10, di_end = 21,
            di_confidence = 0.99, di_replacement = ''[SSN]'' \<rparr>],
       v_confidence_score = 0.99, v_request_id = ''req-2'' \<rparr>"

section \<open>The digest (C4)\<close>

lemma hex32_length: "length (hex32 w) = 8"
  unfolding hex32_def by simp

lemma hex32_chars:
  assumes "c \<in> set (hex32 w)"
  shows "c \<in> set ''0123456789abcdef''"
proof -
  from assms have "c \<in> (\<lambda>i. ''0123456789abcdef'' ! (unat (drop_bit (4 * i) w) mod 16))
                      ` set [7, 6, 5, 4, 3, 2, 1, 0::nat]"
    unfolding hex32_def set_map .
  then obtain i where c: "c = ''0123456789abcdef'' ! (unat (drop_bit (4 * i) w) mod 16)"
    by (rule imageE)
  have "unat (drop_bit (4 * i) w) mod 16 < length ''0123456789abcdef''"
    by simp
  then show ?thesis unfolding c by (rule nth_mem)
qed

lemma hex_state_is_hex64: "is_hex64 (hex_state st)"
proof -
  obtain a r where "st = (a, r)" by (cases st)
  moreover obtain b c d e f g h where "r = (b, c, d, e, f, g, h)" by (rule prod_cases7)
  ultimately have st: "st = (a, b, c, d, e, f, g, h)" by simp
  have len: "length (hex_state st) = 64"
    unfolding st hex_state_def prod.case length_append hex32_length by simp
  have chars: "\<forall>x \<in> set (hex_state st). x \<in> set ''0123456789abcdef''"
    unfolding st hex_state_def prod.case set_append using hex32_chars by blast
  show ?thesis unfolding is_hex64_def list_all_iff using len chars by blast
qed

lemma sha256_hex_is_hex64: "is_hex64 (sha256_hex s)"
  unfolding sha256_hex_def by (rule hex_state_is_hex64)


text \<open>
  \<^bold>\<open>C4, as amended.\<close> The digest is a function of its input alone (\<open>AuditLogger_hash\<close> reads no
  state and no salt, so equal inputs give equal digests). For every non-null, non-empty
  input it returns a string of 64 lower-case hexadecimal characters. For \<^verbatim>\<open>null\<close> and for
  the empty string alike it returns \<^verbatim>\<open>null\<close>, and for nothing else: the guard
  \<^verbatim>\<open>if (!data) return null\<close> makes \<open>digest(null) = digest("") = null\<close>, so absence and the
  empty string are told apart from every non-empty input, but not from each other.
\<close>

theorem digest_is_hex_or_null:
  "(s \<noteq> [] \<longrightarrow> (\<exists>h. AuditLogger_hash (Some s) = Some h \<and> is_hex64 h))
   \<and> AuditLogger_hash None = None
   \<and> AuditLogger_hash (Some []) = None
   \<and> (AuditLogger_hash d = None \<longleftrightarrow> d = None \<or> d = Some [])"
  using sha256_hex_is_hex64 by (auto simp add: AuditLogger_hash_def split: option.splits)

text \<open>Witness for C4: the digest of an IP address is 64 hexadecimal characters.\<close>

theorem digest_is_hex_or_null_witness:
  "''203.0.113.7'' \<noteq> [] \<and> (\<exists>h. AuditLogger_hash (Some ''203.0.113.7'') = Some h \<and> is_hex64 h)"
  using digest_is_hex_or_null [of "''203.0.113.7''"] by simp

text \<open>
  Counterexample to C4 as stated: the claim has \<open>digest(null) \<noteq> digest("")\<close>; on the
  code both are \<^verbatim>\<open>null\<close>.
\<close>

theorem digest_null_equals_digest_empty: "\<not> (AuditLogger_hash None \<noteq> AuditLogger_hash (Some ''''))"
  by (simp add: AuditLogger_hash_def)

section \<open>The audit entry (C10, C1)\<close>

text \<open>
  A digest fits its \<^verbatim>\<open>VARCHAR(64)\<close> column, and the table takes the entry of the example
  request, whose handler ran (so its start time is set).
\<close>

lemma sha256_hex_fits: "drop 64 (sha256_hex s) = []"
  using sha256_hex_is_hex64 [of s] by (simp add: is_hex64_def)

lemma example_entry_accepted:
  "audit_logs_accepts
     (insertAuditLog_params (logEntry 2000 example_request example_reply empty_options))"
  by (simp add: audit_logs_accepts_def insertAuditLog_params_def logEntry_def
        example_request_def example_reply_def empty_options_def AuditLogger_hash_def
        extractApiKey_def user_agent_of_def opt_or_null_def sha256_hex_fits varchar_fits_def
        column_ok_def is_null_def as_integer_def as_boolean_def as_varchar_def int4_range_def
        js_or_def body_model_def Let_def)

lemma example_blocked_entry_accepted:
  "audit_logs_accepts
     (insertAuditLog_params (logEntry 2000 example_request example_reply
        (initial_auditContext\<lparr> o_is_blocked := JBool True,
           o_block_reason := JStr ''CONTENT_POLICY_VIOLATION'',
           o_detected_issues_count := JNum 3, o_security_confidence := JNum 0 \<rparr>)))"
  by (simp add: audit_logs_accepts_def insertAuditLog_params_def logEntry_def
        example_request_def example_reply_def initial_auditContext_def AuditLogger_hash_def
        extractApiKey_def user_agent_of_def opt_or_null_def sha256_hex_fits varchar_fits_def
        column_ok_def is_null_def as_integer_def as_boolean_def as_varchar_def int4_range_def
        js_or_def body_model_def Let_def)

text \<open>
  \<^bold>\<open>C10.\<close> For every audited request whose \<^verbatim>\<open>security_confidence\<close> option is the number 0,
  the entry built by \<^verbatim>\<open>AuditLogger.log\<close> and the parameter bound by \<^verbatim>\<open>insertAuditLog\<close>
  hold \<^verbatim>\<open>null\<close> for \<^verbatim>\<open>security_confidence\<close>, exactly as for an absent confidence. The
  same holds for every falsy option value, and likewise \<^verbatim>\<open>detected_issues_count\<close>,
  \<^verbatim>\<open>block_reason\<close> and \<^verbatim>\<open>is_blocked\<close> fall back to their defaults \<open>0\<close>, \<^verbatim>\<open>null\<close> and
  \<^verbatim>\<open>false\<close> whenever the option is falsy.
\<close>

theorem falsy_options_stored_as_defaults:
  "e_security_confidence (logEntry now req rep (opts\<lparr>o_security_confidence := JNum 0\<rparr>)) = JNull
   \<and> p_security_confidence
        (insertAuditLog_params (logEntry now req rep (opts\<lparr>o_security_confidence := JNum 0\<rparr>))) = JNull
   \<and> p_security_confidence
        (insertAuditLog_params (logEntry now req rep (opts\<lparr>o_security_confidence := JNum 0\<rparr>)))
     = p_security_confidence
        (insertAuditLog_params (logEntry now req rep (opts\<lparr>o_security_confidence := JUndefined\<rparr>)))
   \<and> (\<not> truthy (o_security_confidence opts) \<longrightarrow>
        e_security_confidence (logEntry now req rep opts) = JNull
        \<and> p_security_confidence (insertAuditLog_params (logEntry now req rep opts)) = JNull)
   \<and> (\<not> truthy (o_detected_issues_count opts) \<longrightarrow>
        e_detected_issues_count (logEntry now req rep opts) = JNum 0
        \<and> p_detected_issues_count (insertAuditLog_params (logEntry now req rep opts)) = JNum 0)
   \<and> (\<not> truthy (o_block_reason opts) \<longrightarrow>
        e_block_reason (logEntry now req rep opts) = JNull
        \<and> p_block_reason (insertAuditLog_params (logEntry now req rep opts)) = JNull)
   \<and> (\<not> truthy (o_is_blocked opts) \<longrightarrow>
        e_is_blocked (logEntry now req rep opts) = JBool False
        \<and> p_is_blocked (insertAuditLog_params (logEntry now req rep opts)) = JBool False)"
  by (simp add: logEntry_def insertAuditLog_params_def js_or_def Let_def)

text \<open>
  Witness for C10: a blocked verdict with three issues and confidence 0, logged in
  synchronous mode. The stored confidence is \<^verbatim>\<open>null\<close>; the truthy options are stored as
  they are.
\<close>

theorem falsy_options_stored_as_defaults_witness:
  "\<not> truthy (o_security_confidence
       (initial_auditContext\<lparr> o_is_blocked := JBool True,
          o_block_reason := JStr ''CONTENT_POLICY_VIOLATION'',
          o_detected_issues_count := JNum 3, o_security_confidence := JNum 0 \<rparr>))
   \<and> map p_security_confidence
        (pg_rows (snd (AuditLogger_log 2000 sync_logger example_request example_reply
           (initial_auditContext\<lparr> o_is_blocked := JBool True,
              o_block_reason := JStr ''CONTENT_POLICY_VIOLATION'',
              o_detected_issues_count := JNum 3, o_security_confidence := JNum 0 \<rparr>))))
     = [JNull]"
proof -
  let ?opts = "initial_auditContext\<lparr> o_is_blocked := JBool True,
          o_block_reason := JStr ''CONTENT_POLICY_VIOLATION'',
          o_detected_issues_count := JNum 3, o_security_confidence := JNum 0 \<rparr>"
  have falsy: "\<not> truthy (o_security_confidence ?opts)" by simp
  from falsy_options_stored_as_defaults [of 2000 example_request example_reply ?opts] falsy
  have "p_security_confidence
          (insertAuditLog_params (logEntry 2000 example_request example_reply ?opts)) = JNull"
    by blast
  moreover have "pg_rows (snd (AuditLogger_log 2000 sync_logger example_request example_reply ?opts))
      = [insertAuditLog_params (logEntry 2000 example_request example_reply ?opts)]"
    using example_blocked_entry_accepted
    by (simp add: AuditLogger_log_def sync_logger_def insertAuditLog_def Let_def)
  ultimately show ?thesis using falsy by simp
qed

text \<open>
  What the logger does with the identifiers: the three hash columns hold the digest
  of the IP address, of the user agent and of the API key, or \<^verbatim>\<open>null\<close>.
\<close>

lemma entry_hash_columns:
  "e_client_ip_hash (logEntry now req rep opts) = AuditLogger_hash (Some (rq_ip req))
   \<and> e_user_agent_hash (logEntry now req rep opts) = AuditLogger_hash (Some (user_agent_of req))
   \<and> e_api_key_hash (logEntry now req rep opts)
       = (case extractApiKey (rq_headers req) of None \<Rightarrow> None | Some k \<Rightarrow> AuditLogger_hash (Some k))"
  by (simp add: logEntry_def Let_def AuditLogger_hash_def split: option.splits)

text \<open>
  The metadata column is another matter: unless \<^verbatim>\<open>options.metadata\<close> overwrites the
  key, it holds the first 100 characters of the user agent as they were sent.
\<close>

lemma metadata_keeps_raw_user_agent:
  "o_metadata opts = None \<or> o_metadata opts = Some [] \<Longrightarrow>
   map_of (e_metadata (logEntry now req rep opts)) ''user_agent_truncated''
     = Some (JStr (take 100 (user_agent_of req)))"
  by (auto simp add: logEntry_def Let_def obj_spread_def)

text \<open>
  \<^bold>\<open>C1\<close> says that no raw identifier reaches any column, the metadata column included.
  The code breaks it: \<^verbatim>\<open>log\<close> writes the first 100 characters of the raw
  \<^verbatim>\<open>User-Agent\<close> header into \<^verbatim>\<open>metadata.user_agent_truncated\<close>. Evaluated on a request
  from \<^verbatim>\<open>curl/8.4.0\<close>, logged in synchronous mode: the one row that is inserted carries
  the raw user agent in its metadata.
\<close>

theorem raw_user_agent_in_metadata:
  "map p_metadata
     (pg_rows (snd (AuditLogger_log 2000 sync_logger example_request example_reply empty_options)))
   = [Some [(''user_agent_truncated'', JStr ''curl/8.4.0''),
            (''request_path'', JStr ''/v1/chat/completions'')]]"
proof -
  have "pg_rows (snd (AuditLogger_log 2000 sync_logger example_request example_reply empty_options))
      = [insertAuditLog_params (logEntry 2000 example_request example_reply empty_options)]"
    using example_entry_accepted
    by (simp add: AuditLogger_log_def sync_logger_def insertAuditLog_def Let_def)
  then show ?thesis
    by (simp add: insertAuditLog_params_def logEntry_def example_request_def empty_options_def
          obj_spread_def user_agent_of_def Let_def)
qed

section \<open>The analyzer client (C6)\<close>

lemma attempts_append: "attempts (xs @ ys) = attempts xs + attempts ys"
  by (simp add: attempts_def)

lemma attempts_Attempt: "attempts (Attempt k # tr) = Suc (attempts tr)"
  by (simp add: attempts_def)

lemma attempts_Nil: "attempts [] = 0"
  by (simp add: attempts_def)

lemma attempts_backoff: "attempts (backoff a e) = 0"
  by (simp add: attempts_def backoff_def)

lemma loop_exit:
  "\<not> int a \<le> N \<Longrightarrow> checkContent_loop rpc N a le tr = (Inl le, tr)"
  by (subst checkContent_loop.simps) simp

lemma loop_success:
  "int a \<le> N \<Longrightarrow> rpc a = Inr v \<Longrightarrow>
   checkContent_loop rpc N a le tr = (Inr v, tr @ [Attempt a])"
  by (subst checkContent_loop.simps) simp

lemma loop_invalid:
  "int a \<le> N \<Longrightarrow> rpc a = Inl InvalidArgument \<Longrightarrow>
   checkContent_loop rpc N a le tr = (Inl (Some InvalidArgument), tr @ [Attempt a])"
  by (subst checkContent_loop.simps) simp

lemma loop_retry:
  "int a < N \<Longrightarrow> rpc a = Inl e \<Longrightarrow> e \<noteq> InvalidArgument \<Longrightarrow>
   checkContent_loop rpc N a le tr =
     checkContent_loop rpc N (Suc a) (Some e) (tr @ Attempt a # backoff a e)"
  by (subst checkContent_loop.simps) simp

lemma loop_last:
  "int a = N \<Longrightarrow> rpc a = Inl e \<Longrightarrow> e \<noteq> InvalidArgument \<Longrightarrow>
   checkContent_loop rpc N a le tr = (Inl (Some e), tr @ [Attempt a])"
  by (subst checkContent_loop.simps) (simp add: loop_exit)

lemma loop_attempts_bound:
  "attempts (snd (checkContent_loop rpc N a le tr)) \<le> attempts tr + nat (N + 1 - int a)"
proof (induction rpc N a le tr rule: checkContent_loop.induct)
  case (1 rpc N a le tr)
  consider (exit) "\<not> int a \<le> N"
    | (ok) v where "int a \<le> N" "rpc a = Inr v"
    | (invalid) "int a \<le> N" "rpc a = Inl InvalidArgument"
    | (retry) e where "int a < N" "rpc a = Inl e" "e \<noteq> InvalidArgument"
    | (last) e where "int a = N" "rpc a = Inl e" "e \<noteq> InvalidArgument"
    by (cases "rpc a") force+
  then show ?case
  proof cases
    case exit
    then show ?thesis by (simp add: loop_exit)
  next
    case ok
    then show ?thesis by (simp add: loop_success attempts_append attempts_Attempt attempts_Nil)
  next
    case invalid
    then show ?thesis by (simp add: loop_invalid attempts_append attempts_Attempt attempts_Nil)
  next
    case retry
    from retry have le: "int a \<le> N" by simp
    from "1.IH"(1) [OF le retry(2) retry(3) retry(1)] retry show ?thesis
      by (simp add: loop_retry attempts_append attempts_Attempt attempts_backoff)
  next
    case last
    then show ?thesis by (simp add: loop_last attempts_append attempts_Attempt attempts_Nil)
  qed
qed

lemma loop_first_attempt:
  "int a \<le> N \<Longrightarrow> \<exists>post. snd (checkContent_loop rpc N a le tr) = tr @ Attempt a # post"
proof -
  have ext: "\<exists>post. snd (checkContent_loop rpc N a le tr) = tr @ post" for a le tr
  proof (induction rpc N a le tr rule: checkContent_loop.induct)
    case (1 rpc N a le tr)
    consider (exit) "\<not> int a \<le> N"
      | (ok) v where "int a \<le> N" "rpc a = Inr v"
      | (invalid) "int a \<le> N" "rpc a = Inl InvalidArgument"
      | (retry) e where "int a < N" "rpc a = Inl e" "e \<noteq> InvalidArgument"
      | (last) e where "int a = N" "rpc a = Inl e" "e \<noteq> InvalidArgument"
      by (cases "rpc a") force+
    then show ?case
    proof cases
      case exit
      then show ?thesis by (simp add: loop_exit)
    next
      case ok
      then show ?thesis by (simp add: loop_success)
    next
      case invalid
      then show ?thesis by (simp add: loop_invalid)
    next
      case retry
      from retry have le: "int a \<le> N" by simp
      from "1.IH"(1) [OF le retry(2) retry(3) retry(1)] obtain post where
        "snd (checkContent_loop rpc N (a + 1) (Some e) (tr @ Attempt a # backoff a e))
           = (tr @ Attempt a # backoff a e) @ post" by blast
      with retry show ?thesis by (simp add: loop_retry)
    next
      case last
      then show ?thesis by (simp add: loop_last)
    qed
  qed
  assume le: "int a \<le> N"
  consider (ok) v where "rpc a = Inr v"
    | (invalid) "rpc a = Inl InvalidArgument"
    | (retry) e where "int a < N" "rpc a = Inl e" "e \<noteq> InvalidArgument"
    | (last) e where "int a = N" "rpc a = Inl e" "e \<noteq> InvalidArgument"
    using le by (cases "rpc a") force+
  then show ?thesis
  proof cases
    case ok
    with le show ?thesis by (simp add: loop_success)
  next
    case invalid
    with le show ?thesis by (simp add: loop_invalid)
  next
    case retry
    from ext [of "Suc a" "Some e" "tr @ Attempt a # backoff a e"] obtain post where
      "snd (checkContent_loop rpc N (Suc a) (Some e) (tr @ Attempt a # backoff a e))
         = (tr @ Attempt a # backoff a e) @ post" by blast
    with retry show ?thesis by (simp add: loop_retry)
  next
    case last
    then show ?thesis by (simp add: loop_last)
  qed
qed

text \<open>After \<open>k\<close> failed and retried attempts the loop stands at attempt \<open>k\<close>.\<close>

lemma loop_skip:
  "int k \<le> N \<Longrightarrow> (\<forall>j<k. \<exists>e. rpc j = Inl e \<and> e \<noteq> InvalidArgument) \<Longrightarrow>
   \<exists>le tr. checkContent rpc N = checkContent_loop rpc N k le tr \<and> attempts tr = k
      \<and> (\<forall>j e. Suc j = k \<and> rpc j = Inl e \<longrightarrow> (\<exists>pre. tr = pre @ Attempt j # backoff j e))"
proof (induction k)
  case 0
  show ?case unfolding checkContent_def
    by (rule exI [of _ None], rule exI [of _ "[]"]) (simp add: attempts_Nil)
next
  case (Suc k)
  from Suc.prems have kN: "int k < N" and kle: "int k \<le> N" by simp_all
  from Suc.prems obtain e where e: "rpc k = Inl e" "e \<noteq> InvalidArgument" by blast
  from Suc.prems have "\<forall>j<k. \<exists>e. rpc j = Inl e \<and> e \<noteq> InvalidArgument" by simp
  from Suc.IH [OF kle this] obtain le tr where
    st: "checkContent rpc N = checkContent_loop rpc N k le tr" and at: "attempts tr = k"
    by blast
  have "checkContent rpc N = checkContent_loop rpc N (Suc k) (Some e) (tr @ Attempt k # backoff k e)"
    using st loop_retry [where rpc = rpc and a = k and N = N and e = e, OF kN e] by simp
  moreover have "attempts (tr @ Attempt k # backoff k e) = Suc k"
    by (simp add: attempts_append attempts_Attempt attempts_backoff at)
  moreover have "\<forall>j e'. Suc j = Suc k \<and> rpc j = Inl e' \<longrightarrow>
      (\<exists>pre. tr @ Attempt k # backoff k e = pre @ Attempt j # backoff j e')"
    using e by auto
  ultimately show ?case by blast
qed

text \<open>
  \<^bold>\<open>C6.\<close> \<^verbatim>\<open>checkContent\<close> makes at most \<open>1 + N\<close> attempts (\<open>N\<close> is \<^verbatim>\<open>maxRetries\<close>). An
  invalid-argument error at attempt \<open>k\<close> is thrown at once: attempt \<open>k\<close> is the last thing
  the client does. While retries are left, a failure of attempt \<open>k\<close> with unavailable or
  deadline-exceeded is followed by a sleep of \<open>1000 \<sqdot> 2^k\<close> ms, a reconnect, and attempt
  \<open>k + 1\<close> (attempts count from 0, as in the source: the sleeps are 1 s, 2 s, 4 s, ...).
  When every attempt fails, the error of the last attempt is thrown, after exactly
  \<open>1 + N\<close> attempts.
\<close>

theorem checkContent_retry_contract:
  fixes rpc :: "nat \<Rightarrow> rpc_error + 'v"
  assumes N: "0 \<le> N"
  shows
   "attempts (snd (checkContent rpc N)) \<le> 1 + nat N
    \<and> (\<forall>k. int k \<le> N \<and> (\<forall>j<k. \<exists>e. rpc j = Inl e \<and> e \<noteq> InvalidArgument)
              \<and> rpc k = Inl InvalidArgument
          \<longrightarrow> fst (checkContent rpc N) = Inl (Some InvalidArgument)
              \<and> attempts (snd (checkContent rpc N)) = k + 1
              \<and> (\<exists>pre. snd (checkContent rpc N) = pre @ [Attempt k]))
    \<and> (\<forall>k. int k < N
              \<and> (\<forall>j\<le>k. rpc j = Inl Unavailable \<or> rpc j = Inl DeadlineExceeded)
          \<longrightarrow> (\<exists>pre post. snd (checkContent rpc N)
                 = pre @ [Attempt k, Sleep (1000 * 2 ^ k), Reconnect, Attempt (Suc k)] @ post))
    \<and> ((\<forall>j. int j \<le> N \<longrightarrow> (\<exists>e. rpc j = Inl e \<and> e \<noteq> InvalidArgument))
          \<longrightarrow> (\<exists>e. rpc (nat N) = Inl e \<and> fst (checkContent rpc N) = Inl (Some e))
              \<and> attempts (snd (checkContent rpc N)) = 1 + nat N)"
proof (intro conjI allI impI)
  show "attempts (snd (checkContent rpc N)) \<le> 1 + nat N"
    using loop_attempts_bound [of rpc N 0 None "[]"] N
    by (simp add: checkContent_def attempts_Nil)
next
  fix k
  assume h: "int k \<le> N \<and> (\<forall>j<k. \<exists>e. rpc j = Inl e \<and> e \<noteq> InvalidArgument)
              \<and> rpc k = Inl InvalidArgument"
  then obtain le tr where
    st: "checkContent rpc N = checkContent_loop rpc N k le tr" and at: "attempts tr = k"
    using loop_skip [of k N rpc] by blast
  from h have eq: "checkContent rpc N = (Inl (Some InvalidArgument), tr @ [Attempt k])"
    using st by (simp add: loop_invalid)
  show "fst (checkContent rpc N) = Inl (Some InvalidArgument)" by (simp add: eq)
  show "attempts (snd (checkContent rpc N)) = k + 1"
    by (simp add: eq attempts_append attempts_Attempt attempts_Nil at)
  show "\<exists>pre. snd (checkContent rpc N) = pre @ [Attempt k]" by (simp add: eq)
next
  fix k
  assume h: "int k < N \<and> (\<forall>j\<le>k. rpc j = Inl Unavailable \<or> rpc j = Inl DeadlineExceeded)"
  then have kN: "int (Suc k) \<le> N" by simp
  from h have all: "\<forall>j<Suc k. \<exists>e. rpc j = Inl e \<and> e \<noteq> InvalidArgument"
    by (metis less_Suc_eq_le rpc_error.distinct(1) rpc_error.distinct(3))
  from h obtain e where e: "rpc k = Inl e" "e = Unavailable \<or> e = DeadlineExceeded" by blast
  from loop_skip [OF kN all] e obtain le tr pre where
    st: "checkContent rpc N = checkContent_loop rpc N (Suc k) le tr"
    and tr: "tr = pre @ Attempt k # backoff k e"
    by blast
  from loop_first_attempt [OF kN, of rpc le tr] obtain post where
    "snd (checkContent_loop rpc N (Suc k) le tr) = tr @ Attempt (Suc k) # post" by blast
  then have "snd (checkContent rpc N)
      = pre @ [Attempt k, Sleep (1000 * 2 ^ k), Reconnect, Attempt (Suc k)] @ post"
    using st tr e(2) by (auto simp add: backoff_def)
  then show "\<exists>pre post. snd (checkContent rpc N)
      = pre @ [Attempt k, Sleep (1000 * 2 ^ k), Reconnect, Attempt (Suc k)] @ post"
    by blast
next
  assume h: "\<forall>j. int j \<le> N \<longrightarrow> (\<exists>e. rpc j = Inl e \<and> e \<noteq> InvalidArgument)"
  from N have nN: "int (nat N) = N" by simp
  from nN have "int (nat N) \<le> N" by simp
  with h have "\<exists>e. rpc (nat N) = Inl e \<and> e \<noteq> InvalidArgument" by blast
  then obtain e where e: "rpc (nat N) = Inl e" "e \<noteq> InvalidArgument" by blast
  have "\<forall>j<nat N. \<exists>e. rpc j = Inl e \<and> e \<noteq> InvalidArgument" using h by auto
  with loop_skip [of "nat N" N rpc] nN obtain le tr where
    st: "checkContent rpc N = checkContent_loop rpc N (nat N) le tr" and at: "attempts tr = nat N"
    by auto
  have eq: "checkContent rpc N = (Inl (Some e), tr @ [Attempt (nat N)])"
    using st loop_last [where rpc = rpc and a = "nat N" and N = N and e = e, OF nN e] by simp
  show "\<exists>e. rpc (nat N) = Inl e \<and> fst (checkContent rpc N) = Inl (Some e)"
    using e by (simp add: eq)
  show "attempts (snd (checkContent rpc N)) = 1 + nat N"
    by (simp add: eq attempts_append attempts_Attempt attempts_Nil at)
qed

text \<open>
  Witness for C6, with the default \<open>N = 3\<close>: an analyzer that is down for all four
  attempts, and one that rejects the second attempt as invalid.
\<close>

theorem checkContent_retry_contract_witness:
  "(0::int) \<le> 3
   \<and> fst (checkContent (\<lambda>k. Inl Unavailable :: rpc_error + verdict) 3) = Inl (Some Unavailable)
   \<and> attempts (snd (checkContent (\<lambda>k. Inl Unavailable :: rpc_error + verdict) 3)) = 4
   \<and> (\<exists>pre post. snd (checkContent (\<lambda>k. Inl Unavailable :: rpc_error + verdict) 3)
          = pre @ [Attempt 2, Sleep 4000, Reconnect, Attempt 3] @ post)
   \<and> fst (checkContent (\<lambda>k. if k = 1 then Inl InvalidArgument else Inl DeadlineExceeded
                          :: rpc_error + verdict) 3) = Inl (Some InvalidArgument)
   \<and> attempts (snd (checkContent (\<lambda>k. if k = 1 then Inl InvalidArgument else Inl DeadlineExceeded
                          :: rpc_error + verdict) 3)) = 2"
proof -
  let ?down = "\<lambda>k::nat. Inl Unavailable :: rpc_error + verdict"
  let ?bad = "\<lambda>k::nat. if k = 1 then Inl InvalidArgument else Inl DeadlineExceeded
                :: rpc_error + verdict"
  have three: "(0::int) \<le> 3" by simp
  note down = checkContent_retry_contract [OF three, of ?down]
  note bad = checkContent_retry_contract [OF three, of ?bad]
  from down have d4: "(\<forall>j. int j \<le> 3 \<longrightarrow> (\<exists>e. ?down j = Inl e \<and> e \<noteq> InvalidArgument))
      \<longrightarrow> (\<exists>e. ?down (nat 3) = Inl e \<and> fst (checkContent ?down 3) = Inl (Some e))
          \<and> attempts (snd (checkContent ?down 3)) = 1 + nat 3" by blast
  then have a: "fst (checkContent ?down 3) = Inl (Some Unavailable)"
    and b: "attempts (snd (checkContent ?down 3)) = 4" by simp_all
  from down have "int 2 < 3 \<and> (\<forall>j\<le>2. ?down j = Inl Unavailable \<or> ?down j = Inl DeadlineExceeded)
      \<longrightarrow> (\<exists>pre post. snd (checkContent ?down 3)
             = pre @ [Attempt 2, Sleep (1000 * 2 ^ 2), Reconnect, Attempt (Suc 2)] @ post)"
    by blast
  then have c: "\<exists>pre post. snd (checkContent ?down 3)
             = pre @ [Attempt 2, Sleep 4000, Reconnect, Attempt 3] @ post"
    by (simp add: eval_nat_numeral)
  from bad have "int 1 \<le> 3 \<and> (\<forall>j<1. \<exists>e. ?bad j = Inl e \<and> e \<noteq> InvalidArgument)
        \<and> ?bad 1 = Inl InvalidArgument
      \<longrightarrow> fst (checkContent ?bad 3) = Inl (Some InvalidArgument)
          \<and> attempts (snd (checkContent ?bad 3)) = 1 + 1
          \<and> (\<exists>pre. snd (checkContent ?bad 3) = pre @ [Attempt 1])"
    by blast
  then have d: "fst (checkContent ?bad 3) = Inl (Some InvalidArgument)"
    and e: "attempts (snd (checkContent ?bad 3)) = 2" by simp_all
  from three a b c d e show ?thesis by blast
qed

section \<open>The rate limiter (C7)\<close>

lemma global_key_not_ip: "bucket_key ''global'' i w \<noteq> bucket_key ''ip'' i' w'"
  by (simp add: bucket_key_def)

lemma global_key_not_apikey: "bucket_key ''global'' i w \<noteq> bucket_key ''apikey'' i' w'"
  by (simp add: bucket_key_def)

lemma checkBucket_frame:
  assumes "checkBucket rd now t i lc = (res, rd')"
    and "k \<noteq> bucket_key t i (now - js_rem now (lc_window lc))"
  shows "rd_counts rd' k = rd_counts rd k \<and> rd_expires_at rd' k = rd_expires_at rd k
         \<and> rd_connected rd' = rd_connected rd"
  using assms
  by (auto simp add: checkBucket_def Let_def redis_incr_def redis_ttl_def redis_expire_def
        rd_live_def split: if_splits option.splits prod.splits)

lemma checkBucket_denial:
  assumes "checkBucket rd now t i lc = (Some g, rd')" and "\<not> rl_allowed g"
  shows "rl_limit g = Some (lc_max lc) \<and> rl_remaining g = Some 0
         \<and> rl_reset g = Some (now - js_rem now (lc_window lc) + lc_window lc)
         \<and> rl_retryAfter g = Some (now - js_rem now (lc_window lc) + lc_window lc - now)
         \<and> rl_type g = Some t"
  using assms
  by (auto simp add: checkBucket_def Let_def split: if_splits prod.splits)

text \<open>
  \<^bold>\<open>C7.\<close> When the limiter is enabled and the global tier denies (its bucket check
  returns a decision with \<^verbatim>\<open>allowed = false\<close>), \<^verbatim>\<open>checkLimit\<close> returns that decision and
  the store as the global check left it: no per-caller and no per-key counter has changed,
  indeed no counter but the global bucket's. The decision carries \<open>limit = max\<close>,
  \<open>remaining = 0\<close>, \<open>reset = windowStart + windowSeconds\<close> and
  \<open>retryAfter = reset - now\<close>, where \<open>windowStart = now - now % windowSeconds\<close>.
\<close>

theorem global_denial_short_circuits:
  assumes "rlm_enabled rl" and "0 < lc_window (rlm_global rl)"
    and "checkBucket rd now ''global'' ''all'' (rlm_global rl) = (Some g, rd1)"
    and "\<not> rl_allowed g"
  shows "checkLimit rl rd now ip apiKey = (g, rd1)
    \<and> rl_limit g = Some (lc_max (rlm_global rl))
    \<and> rl_remaining g = Some 0
    \<and> rl_reset g = Some (now - js_rem now (lc_window (rlm_global rl)) + lc_window (rlm_global rl))
    \<and> rl_retryAfter g =
          Some (now - js_rem now (lc_window (rlm_global rl)) + lc_window (rlm_global rl) - now)
    \<and> (\<forall>w. rd_counts rd1 (bucket_key ''ip'' ip w) = rd_counts rd (bucket_key ''ip'' ip w))
    \<and> (\<forall>key w. rd_counts rd1 (bucket_key ''apikey'' key w)
                   = rd_counts rd (bucket_key ''apikey'' key w))
    \<and> (\<forall>k. k \<noteq> bucket_key ''global'' ''all'' (now - js_rem now (lc_window (rlm_global rl)))
          \<longrightarrow> rd_counts rd1 k = rd_counts rd k)"
proof -
  have "checkLimit rl rd now ip apiKey = (g, rd1)"
    using assms by (simp add: checkLimit_def)
  moreover note checkBucket_denial [OF assms(3) assms(4)]
  moreover have frame: "\<And>k. k \<noteq> bucket_key ''global'' ''all'' (now - js_rem now (lc_window (rlm_global rl)))
      \<Longrightarrow> rd_counts rd1 k = rd_counts rd k"
    using checkBucket_frame [OF assms(3)] by blast
  moreover have "\<And>w. rd_counts rd1 (bucket_key ''ip'' ip w) = rd_counts rd (bucket_key ''ip'' ip w)"
    by (rule frame) (metis global_key_not_ip)
  moreover have "\<And>key w. rd_counts rd1 (bucket_key ''apikey'' key w)
      = rd_counts rd (bucket_key ''apikey'' key w)"
    by (rule frame) (metis global_key_not_apikey)
  ultimately show ?thesis by simp
qed

lemma checkBucket_exhausted:
  "checkBucket exhausted_store 125 ''global'' ''all'' \<lparr> lc_max = 2, lc_window = 60 \<rparr>
   = (Some \<lparr> rl_allowed = False, rl_limit = Some 2, rl_remaining = Some 0, rl_reset = Some 180,
             rl_retryAfter = Some 55, rl_type = Some ''global'' \<rparr>,
      exhausted_store\<lparr>rd_counts := [bucket_key ''global'' ''all'' 120 \<mapsto> 3]\<rparr>)"
  by (simp add: checkBucket_def exhausted_store_def js_rem_def Let_def redis_incr_def
        redis_ttl_def redis_expire_def rd_live_def)

text \<open>
  Witness for C7: at second 125 the global bucket of the window starting at 120 already
  holds 2 of 2; the check of a caller who presents an API key is denied by the global
  tier, and only the global counter moves (to 3).
\<close>

theorem global_denial_short_circuits_witness:
  "rlm_enabled (new_RateLimiter example_config)
   \<and> 0 < lc_window (rlm_global (new_RateLimiter example_config))
   \<and> checkLimit (new_RateLimiter example_config) exhausted_store 125 ''203.0.113.7''
        (Some ''sk-secret'')
      = (\<lparr> rl_allowed = False, rl_limit = Some 2, rl_remaining = Some 0, rl_reset = Some 180,
           rl_retryAfter = Some 55, rl_type = Some ''global'' \<rparr>,
         exhausted_store\<lparr>rd_counts := [bucket_key ''global'' ''all'' 120 \<mapsto> 3]\<rparr>)"
proof -
  let ?g = "\<lparr> rl_allowed = False, rl_limit = Some 2, rl_remaining = Some 0, rl_reset = Some 180,
              rl_retryAfter = Some 55, rl_type = Some ''global'' \<rparr>"
  have 1: "rlm_enabled (new_RateLimiter example_config)"
    and 2: "0 < lc_window (rlm_global (new_RateLimiter example_config))"
    by (simp_all add: new_RateLimiter_def example_config_def)
  have 3: "checkBucket exhausted_store 125 ''global'' ''all''
             (rlm_global (new_RateLimiter example_config))
           = (Some ?g, exhausted_store\<lparr>rd_counts := [bucket_key ''global'' ''all'' 120 \<mapsto> 3]\<rparr>)"
    using checkBucket_exhausted by (simp add: new_RateLimiter_def example_config_def)
  have 4: "\<not> rl_allowed ?g" by simp
  from global_denial_short_circuits [OF 1 2 3 4, of "''203.0.113.7''" "Some ''sk-secret''"] 1 2
  show ?thesis by simp
qed

section \<open>The request lifecycle under rate limiting (C8, C2)\<close>

subsection \<open>Bucket keys and bucket checks\<close>

lemma show_nat_no_colon: "CHR '':'' \<notin> set (show_nat n)"
proof (induction n rule: show_nat.induct)
  case (1 n)
  have digit: "CHR '':'' \<noteq> char_of (48 + m)" if "m < 10" for m :: nat
  proof
    assume "CHR '':'' = char_of (48 + m)"
    then have "char_of (48 + m) = CHR '':''" by simp
    then have "(of_char (char_of (48 + m)) :: nat) = of_char (CHR '':'')" by simp
    then have "(48 + m) mod 256 = 58" by simp
    with that show False by simp
  qed
  show ?case
  proof (cases "n < 10")
    case True
    then show ?thesis by (subst show_nat.simps) (simp add: digit)
  next
    case False
    with "1.IH" have "CHR '':'' \<notin> set (show_nat (n div 10))" by simp
    moreover have "CHR '':'' \<noteq> char_of (48 + n mod 10)" by (rule digit) simp
    ultimately show ?thesis using False by (subst show_nat.simps) simp
  qed
qed

lemma show_int_no_colon: "CHR '':'' \<notin> set (show_int w)"
  by (simp add: show_int_def show_nat_no_colon)

lemma split_at_last:
  "c \<notin> set s \<Longrightarrow> c \<notin> set s' \<Longrightarrow> xs @ c # s = ys @ c # s' \<Longrightarrow> xs = ys"
proof (induction xs arbitrary: ys)
  case Nil
  then show ?case by (cases ys) auto
next
  case (Cons x xs)
  then show ?case by (cases ys) auto
qed

lemma ip_key_inj: "bucket_key ''ip'' i w = bucket_key ''ip'' i' w' \<Longrightarrow> i = i'"
  using split_at_last [OF show_int_no_colon show_int_no_colon, of i w i' w']
  by (simp add: bucket_key_def)

lemma js_rem_nonneg: "0 \<le> a \<Longrightarrow> 0 < b \<Longrightarrow> js_rem a b = a mod b"
  by (cases "a = 0") (simp_all add: js_rem_def)

lemma checkBucket_fresh:
  assumes "rd_connected rd" and "0 < lc_window lc"
    and "rd_counts rd (bucket_key t i (now - js_rem now (lc_window lc))) = None"
  shows "checkBucket rd now t i lc =
    (Some \<lparr> rl_allowed = (1 \<le> lc_max lc), rl_limit = Some (lc_max lc),
             rl_remaining = Some (max 0 (lc_max lc - 1)),
             rl_reset = Some (now - js_rem now (lc_window lc) + lc_window lc),
             rl_retryAfter = (if 1 \<le> lc_max lc then None
                              else Some (now - js_rem now (lc_window lc) + lc_window lc - now)),
             rl_type = Some t \<rparr>,
     rd\<lparr> rd_counts := (rd_counts rd)(bucket_key t i (now - js_rem now (lc_window lc)) \<mapsto> 1),
         rd_expires_at := (rd_expires_at rd)
            (bucket_key t i (now - js_rem now (lc_window lc)) \<mapsto> now + lc_window lc) \<rparr>)"
  using assms
  by (simp add: checkBucket_def Let_def redis_incr_def redis_ttl_def redis_expire_def rd_live_def)

lemma checkBucket_live:
  assumes "rd_connected rd"
    and "rd_counts rd (bucket_key t i (now - js_rem now (lc_window lc))) = Some c"
    and "rd_expires_at rd (bucket_key t i (now - js_rem now (lc_window lc))) = Some d"
    and "now < d"
  shows "checkBucket rd now t i lc =
    (Some \<lparr> rl_allowed = (c + 1 \<le> lc_max lc), rl_limit = Some (lc_max lc),
             rl_remaining = Some (max 0 (lc_max lc - (c + 1))),
             rl_reset = Some (now - js_rem now (lc_window lc) + lc_window lc),
             rl_retryAfter = (if c + 1 \<le> lc_max lc then None
                              else Some (now - js_rem now (lc_window lc) + lc_window lc - now)),
             rl_type = Some t \<rparr>,
     rd\<lparr> rd_counts := (rd_counts rd)(bucket_key t i (now - js_rem now (lc_window lc)) \<mapsto> c + 1) \<rparr>)"
  using assms
  by (simp add: checkBucket_def Let_def redis_incr_def redis_ttl_def redis_expire_def rd_live_def)

subsection \<open>Headers, hooks and the lifecycle\<close>

lemma map_of_set_header:
  "map_of (set_header hs k v) k' = (if k' = k then Some v else map_of hs k')"
  by (induction hs) auto

lemma header_of_header:
  "header_of (header rep k v) k' = (if k' = k then Some v else header_of rep k')"
  by (simp add: header_of_def header_def map_of_set_header)

lemma header_fields:
  "rp_statusCode (header rep k v) = rp_statusCode rep"
  "rp_sent (header rep k v) = rp_sent rep"
  "rp_body (header rep k v) = rp_body rep"
  "rp_payload (header rep k v) = rp_payload rep"
  by (simp_all add: header_def)

lemma addRateLimitHeaders_fields:
  "rp_statusCode (addRateLimitHeaders rep res) = rp_statusCode rep"
  "rp_sent (addRateLimitHeaders rep res) = rp_sent rep"
  "rp_body (addRateLimitHeaders rep res) = rp_body rep"
  "rp_payload (addRateLimitHeaders rep res) = rp_payload rep"
  by (simp_all add: addRateLimitHeaders_def Let_def header_fields split: option.splits)

lemma addRateLimitHeaders_remaining:
  "rl_remaining res = Some m \<Longrightarrow>
   header_of (addRateLimitHeaders rep res) ''X-RateLimit-Remaining'' = Some (HNum m)"
  by (simp add: addRateLimitHeaders_def Let_def header_of_header split: option.splits)

lemma requestId_fields:
  "rq_ip (fst (requestId_onRequest f req rep)) = rq_ip req"
  "rq_url (fst (requestId_onRequest f req rep)) = rq_url req"
  "rq_headers (fst (requestId_onRequest f req rep)) = rq_headers req"
  "rq_auditContext (fst (requestId_onRequest f req rep)) = rq_auditContext req"
  "rp_statusCode (snd (requestId_onRequest f req rep)) = rp_statusCode rep"
  "rp_sent (snd (requestId_onRequest f req rep)) = rp_sent rep"
  by (simp_all add: requestId_onRequest_def Let_def header_fields)

text \<open>What the rate-limit hook makes of the limiter's decision.\<close>

lemma rateLimit_hook_allowed:
  assumes "rq_url req \<noteq> ''/health''" and "rq_url req \<noteq> ''/ready''"
    and "checkLimit limiter rd (t div 1000) (rq_ip req) (extractApiKey (rq_headers req)) = (res, rd')"
    and "rl_allowed res"
  shows "rateLimit_onRequest limiter t rd req rep = (rd', addRateLimitHeaders rep res)"
  using assms by (simp add: rateLimit_onRequest_def Let_def)

lemma rateLimit_hook_denied:
  assumes "rq_url req \<noteq> ''/health''" and "rq_url req \<noteq> ''/ready''"
    and "checkLimit limiter rd (t div 1000) (rq_ip req) (extractApiKey (rq_headers req)) = (res, rd')"
    and "\<not> rl_allowed res" and "rl_retryAfter res = Some ra" and "ra \<noteq> 0"
  shows "fst (rateLimit_onRequest limiter t rd req rep) = rd'"
    and "rp_statusCode (snd (rateLimit_onRequest limiter t rd req rep)) = 429"
    and "rp_sent (snd (rateLimit_onRequest limiter t rd req rep))"
    and "rp_body (snd (rateLimit_onRequest limiter t rd req rep)) =
           Some (ErrorBody \<lparr> eb_type = ''RateLimitExceeded'',
                   eb_message = ''Too many requests. Please try again later.'',
                   eb_requestId = rq_id req, eb_timestamp = t,
                   eb_details = RateLimitDetails (rl_limit res) (rl_reset res) (Some ra) \<rparr>)"
    and "header_of (snd (rateLimit_onRequest limiter t rd req rep)) ''Retry-After'' = Some (HNum ra)"
    and "\<And>m. rl_remaining res = Some m \<Longrightarrow>
           header_of (snd (rateLimit_onRequest limiter t rd req rep)) ''X-RateLimit-Remaining''
             = Some (HNum m)"
  using assms
  by (simp_all add: rateLimit_onRequest_def Let_def header_of_header header_of_def header_def
        addRateLimitHeaders_def map_of_set_header split: option.splits)

lemma serve_ok_allowed:
  assumes "cfg_rateLimiting cfg"
    and "rq_url req \<noteq> ''/health''" and "rq_url req \<noteq> ''/ready''"
    and "checkLimit (new_RateLimiter cfg) (gs_redis gs) (t div 1000) (rq_ip req)
           (extractApiKey (rq_headers req)) = (res, rd')"
    and "rl_allowed res"
  shows "gs_redis (fst (serve cfg ok_handler f t t' gs req)) = rd'"
    and "rp_statusCode (snd (serve cfg ok_handler f t t' gs req)) = 200"
    and "\<And>m. rl_remaining res = Some m \<Longrightarrow>
           header_of (snd (serve cfg ok_handler f t t' gs req)) ''X-RateLimit-Remaining''
             = Some (HNum m)"
proof -
  let ?req1 = "fst (requestId_onRequest f req blank_reply)"
  let ?rep1 = "snd (requestId_onRequest f req blank_reply)"
  have hook: "rateLimit_onRequest (new_RateLimiter cfg) t (gs_redis gs) ?req1 ?rep1
      = (rd', addRateLimitHeaders ?rep1 res)"
    by (rule rateLimit_hook_allowed) (simp_all add: requestId_fields assms)
  have sent: "\<not> rp_sent (addRateLimitHeaders ?rep1 res)"
    by (simp add: addRateLimitHeaders_fields requestId_fields blank_reply_def)
  show "gs_redis (fst (serve cfg ok_handler f t t' gs req)) = rd'"
    using assms(1) hook by (simp add: serve_def Let_def case_prod_beta)
  show "rp_statusCode (snd (serve cfg ok_handler f t t' gs req)) = 200"
    using assms(1) hook sent
    by (simp add: serve_def Let_def case_prod_beta ok_handler_def addRateLimitHeaders_fields
          requestId_fields blank_reply_def)
  show "header_of (snd (serve cfg ok_handler f t t' gs req)) ''X-RateLimit-Remaining''
          = Some (HNum m)" if "rl_remaining res = Some m" for m
    using assms(1) hook sent addRateLimitHeaders_remaining [OF that, where rep = ?rep1]
    by (simp add: serve_def Let_def case_prod_beta ok_handler_def header_of_def)
qed

lemma serve_denied:
  assumes "cfg_rateLimiting cfg"
    and "rq_url req \<noteq> ''/health''" and "rq_url req \<noteq> ''/ready''"
    and "checkLimit (new_RateLimiter cfg) (gs_redis gs) (t div 1000) (rq_ip req)
           (extractApiKey (rq_headers req)) = (res, rd')"
    and "\<not> rl_allowed res" and "rl_retryAfter res = Some ra" and "ra \<noteq> 0"
  shows "gs_redis (fst (serve cfg handler f t t' gs req)) = rd'"
    and "rp_statusCode (snd (serve cfg handler f t t' gs req)) = 429"
    and "header_of (snd (serve cfg handler f t t' gs req)) ''Retry-After'' = Some (HNum ra)"
    and "\<And>m. rl_remaining res = Some m \<Longrightarrow>
           header_of (snd (serve cfg handler f t t' gs req)) ''X-RateLimit-Remaining''
             = Some (HNum m)"
    and "\<exists>b. rp_body (snd (serve cfg handler f t t' gs req)) = Some (ErrorBody b)
           \<and> eb_type b = ''RateLimitExceeded''
           \<and> eb_details b = RateLimitDetails (rl_limit res) (rl_reset res) (Some ra)"
    and "gs_audit (fst (serve cfg handler f t t' gs req)) =
           (if cfg_auditLogging cfg
            then AuditLogger_log t' (gs_audit gs) (fst (requestId_onRequest f req blank_reply))
                   (snd (serve cfg handler f t t' gs req))
                   (case rq_auditContext req of Some ctx \<Rightarrow> ctx | None \<Rightarrow> empty_options)
            else gs_audit gs)"
proof -
  let ?req1 = "fst (requestId_onRequest f req blank_reply)"
  let ?rep1 = "snd (requestId_onRequest f req blank_reply)"
  let ?hook = "rateLimit_onRequest (new_RateLimiter cfg) t (gs_redis gs) ?req1 ?rep1"
  have pre: "rq_url ?req1 \<noteq> ''/health''" "rq_url ?req1 \<noteq> ''/ready''"
    "checkLimit (new_RateLimiter cfg) (gs_redis gs) (t div 1000) (rq_ip ?req1)
           (extractApiKey (rq_headers ?req1)) = (res, rd')"
    by (simp_all add: requestId_fields assms)
  note h = rateLimit_hook_denied [OF pre assms(5) assms(6) assms(7), where rep = ?rep1]
  have reply: "snd (serve cfg handler f t t' gs req) = snd ?hook"
    using assms(1) h(3) by (simp add: serve_def Let_def case_prod_beta)
  show "gs_redis (fst (serve cfg handler f t t' gs req)) = rd'"
    using assms(1) h(1) by (simp add: serve_def Let_def case_prod_beta)
  show "rp_statusCode (snd (serve cfg handler f t t' gs req)) = 429"
    using h(2) by (simp add: reply)
  show "header_of (snd (serve cfg handler f t t' gs req)) ''Retry-After'' = Some (HNum ra)"
    using h(5) by (simp add: reply)
  show "header_of (snd (serve cfg handler f t t' gs req)) ''X-RateLimit-Remaining''
          = Some (HNum m)" if "rl_remaining res = Some m" for m
    using h(6) [OF that] by (simp add: reply)
  show "\<exists>b. rp_body (snd (serve cfg handler f t t' gs req)) = Some (ErrorBody b)
           \<and> eb_type b = ''RateLimitExceeded''
           \<and> eb_details b = RateLimitDetails (rl_limit res) (rl_reset res) (Some ra)"
    using h(4) by (simp add: reply)
  show "gs_audit (fst (serve cfg handler f t t' gs req)) =
           (if cfg_auditLogging cfg
            then AuditLogger_log t' (gs_audit gs) ?req1
                   (snd (serve cfg handler f t t' gs req))
                   (case rq_auditContext req of Some ctx \<Rightarrow> ctx | None \<Rightarrow> empty_options)
            else gs_audit gs)"
    using assms(1) assms(2) h(3)
    by (simp add: serve_def Let_def case_prod_beta auditLog_onResponse_def requestId_fields)
qed

subsection \<open>Three callers against a global limit of two (C8)\<close>

lemma window_start: "0 \<le> s \<Longrightarrow> s - js_rem s 60 = 60 * (s div 60)"
  by (simp add: js_rem_nonneg minus_mod_eq_mult_div)

lemma three_requests:
  assumes cfg: "cfg_rateLimiting cfg" "cfg_global cfg = 2" "cfg_globalWindow cfg = 60"
      "1 \<le> cfg_perIp cfg" "0 < cfg_perIpWindow cfg"
    and store: "rd_connected (gs_redis gs)" "rd_counts (gs_redis gs) = Map.empty"
    and callers: "rq_ip r1 \<noteq> rq_ip r2" "rq_ip r1 \<noteq> rq_ip r3" "rq_ip r2 \<noteq> rq_ip r3"
    and nokey: "extractApiKey (rq_headers r1) = None" "extractApiKey (rq_headers r2) = None"
      "extractApiKey (rq_headers r3) = None"
    and urls: "rq_url r1 \<noteq> ''/health''" "rq_url r1 \<noteq> ''/ready''"
      "rq_url r2 \<noteq> ''/health''" "rq_url r2 \<noteq> ''/ready''"
      "rq_url r3 \<noteq> ''/health''" "rq_url r3 \<noteq> ''/ready''"
    and times: "0 \<le> t1" "t1 \<le> t2" "t2 \<le> t3" "(t1 div 1000) div 60 = (t3 div 1000) div 60"
  shows "map rp_statusCode (snd (serve_all cfg ok_handler gs [(t1, r1), (t2, r2), (t3, r3)]))
           = [200, 200, 429]"
    and "map (\<lambda>rep. header_of rep ''X-RateLimit-Remaining'')
             (snd (serve_all cfg ok_handler gs [(t1, r1), (t2, r2), (t3, r3)]))
           = [Some (HNum (cfg_perIp cfg - 1)), Some (HNum (cfg_perIp cfg - 1)), Some (HNum 0)]"
    and "\<exists>ra. header_of (snd (serve_all cfg ok_handler gs [(t1, r1), (t2, r2), (t3, r3)]) ! 2)
                 ''Retry-After'' = Some (HNum ra) \<and> 1 \<le> ra \<and> ra \<le> 60"
proof -
  define s1 s2 s3 where "s1 = t1 div 1000" and "s2 = t2 div 1000" and "s3 = t3 div 1000"
  define M W where "M = cfg_perIp cfg" and "W = cfg_perIpWindow cfg"
  define rl where "rl = new_RateLimiter cfg"
  have rl: "rlm_enabled rl" "rlm_global rl = \<lparr> lc_max = 2, lc_window = 60 \<rparr>"
    "rlm_ip rl = \<lparr> lc_max = M, lc_window = W \<rparr>"
    by (simp_all add: rl_def new_RateLimiter_def cfg M_def W_def)
  have s: "0 \<le> s1" "s1 \<le> s2" "s2 \<le> s3" "s1 div 60 = s3 div 60"
    using times by (simp_all add: s1_def s2_def s3_def zdiv_mono1 pos_imp_zdiv_nonneg_iff)
  have "s1 div 60 \<le> s2 div 60" "s2 div 60 \<le> s3 div 60" using s by (simp_all add: zdiv_mono1)
  with s have s2w: "s2 div 60 = s1 div 60" by simp
  define ws where "ws = 60 * (s1 div 60)"
  have w1: "s1 - js_rem s1 60 = ws" and w2: "s2 - js_rem s2 60 = ws" and w3: "s3 - js_rem s3 60 = ws"
    using s s2w by (simp_all add: window_start ws_def)
  have in_window: "ws \<le> s1" "s2 < ws + 60" "s3 < ws + 60" "ws \<le> s3"
    using w1 w2 w3 s js_rem_nonneg [of s1 60] js_rem_nonneg [of s2 60] js_rem_nonneg [of s3 60]
      pos_mod_bound [of 60 s2] pos_mod_bound [of 60 s3] pos_mod_sign [of 60 s1]
      pos_mod_sign [of 60 s3]
    by simp_all
  define G where "G = bucket_key ''global'' ''all'' ws"
  define K1 where "K1 = bucket_key ''ip'' (rq_ip r1) (s1 - js_rem s1 W)"
  define K2 where "K2 = bucket_key ''ip'' (rq_ip r2) (s2 - js_rem s2 W)"
  have "G \<noteq> K1" "G \<noteq> K2"
    by (simp_all add: G_def K1_def K2_def global_key_not_ip)
  moreover have "K1 \<noteq> K2"
    using callers(1) ip_key_inj unfolding K1_def K2_def by blast
  ultimately have keys: "G \<noteq> K1" "G \<noteq> K2" "K1 \<noteq> K2" "K1 \<noteq> G" "K2 \<noteq> G" "K2 \<noteq> K1"
    by simp_all
  define rd0 where "rd0 = gs_redis gs"
  define rd1 where "rd1 = rd0\<lparr> rd_counts := [G \<mapsto> 1, K1 \<mapsto> 1],
      rd_expires_at := (rd_expires_at rd0)(G \<mapsto> s1 + 60, K1 \<mapsto> s1 + W) \<rparr>"
  define rd2 where "rd2 = rd0\<lparr> rd_counts := [G \<mapsto> 2, K1 \<mapsto> 1, K2 \<mapsto> 1],
      rd_expires_at := (rd_expires_at rd0)(G \<mapsto> s1 + 60, K1 \<mapsto> s1 + W, K2 \<mapsto> s2 + W) \<rparr>"
  define rd3 where "rd3 = rd2\<lparr> rd_counts := (rd_counts rd2)(G \<mapsto> 3) \<rparr>"
  define ok where "ok now = \<lparr> rl_allowed = True, rl_limit = Some M, rl_remaining = Some (M - 1),
      rl_reset = Some (now - js_rem now W + W), rl_retryAfter = None, rl_type = Some ''ip'' \<rparr>"
    for now
  define denial where "denial = \<lparr> rl_allowed = False, rl_limit = Some 2, rl_remaining = Some 0,
      rl_reset = Some (ws + 60), rl_retryAfter = Some (ws + 60 - s3), rl_type = Some ''global'' \<rparr>"
  have M: "1 \<le> M" "0 < W" using cfg by (simp_all add: M_def W_def)

  have g1: "checkBucket rd0 s1 ''global'' ''all'' \<lparr> lc_max = 2, lc_window = 60 \<rparr>
    = (Some \<lparr> rl_allowed = True, rl_limit = Some 2, rl_remaining = Some 1,
              rl_reset = Some (ws + 60), rl_retryAfter = None, rl_type = Some ''global'' \<rparr>,
       rd0\<lparr> rd_counts := [G \<mapsto> 1], rd_expires_at := (rd_expires_at rd0)(G \<mapsto> s1 + 60) \<rparr>)"
    using checkBucket_fresh [of rd0 "\<lparr> lc_max = 2, lc_window = 60 \<rparr>" "''global''" "''all''" s1]
      store by (simp add: rd0_def w1 G_def)
  have i1: "checkBucket (rd0\<lparr> rd_counts := [G \<mapsto> 1],
                 rd_expires_at := (rd_expires_at rd0)(G \<mapsto> s1 + 60) \<rparr>)
              s1 ''ip'' (rq_ip r1) \<lparr> lc_max = M, lc_window = W \<rparr> = (Some (ok s1), rd1)"
    using checkBucket_fresh [of "rd0\<lparr> rd_counts := [G \<mapsto> 1],
                 rd_expires_at := (rd_expires_at rd0)(G \<mapsto> s1 + 60) \<rparr>"
             "\<lparr> lc_max = M, lc_window = W \<rparr>" "''ip''" "rq_ip r1" s1]
      store M keys by (simp add: rd0_def rd1_def ok_def K1_def [symmetric])
  have step1: "checkLimit rl rd0 s1 (rq_ip r1) None = (ok s1, rd1)"
    by (simp add: checkLimit_def rl g1 i1 ok_def)

  have g2: "checkBucket rd1 s2 ''global'' ''all'' \<lparr> lc_max = 2, lc_window = 60 \<rparr>
    = (Some \<lparr> rl_allowed = True, rl_limit = Some 2, rl_remaining = Some 0,
              rl_reset = Some (ws + 60), rl_retryAfter = None, rl_type = Some ''global'' \<rparr>,
       rd1\<lparr> rd_counts := (rd_counts rd1)(G \<mapsto> 2) \<rparr>)"
    using checkBucket_live [of rd1 "''global''" "''all''" s2 "\<lparr> lc_max = 2, lc_window = 60 \<rparr>"
             1 "s1 + 60"]
      store keys in_window by (simp add: rd0_def rd1_def w2 G_def [symmetric])
  have i2: "checkBucket (rd1\<lparr> rd_counts := (rd_counts rd1)(G \<mapsto> 2) \<rparr>)
              s2 ''ip'' (rq_ip r2) \<lparr> lc_max = M, lc_window = W \<rparr> = (Some (ok s2), rd2)"
    using checkBucket_fresh [of "rd1\<lparr> rd_counts := (rd_counts rd1)(G \<mapsto> 2) \<rparr>"
             "\<lparr> lc_max = M, lc_window = W \<rparr>" "''ip''" "rq_ip r2" s2]
      store M keys
    by (simp add: rd0_def rd1_def rd2_def ok_def K2_def [symmetric] fun_upd_twist)
  have step2: "checkLimit rl rd1 s2 (rq_ip r2) None = (ok s2, rd2)"
    by (simp add: checkLimit_def rl g2 i2 ok_def)

  have g3: "checkBucket rd2 s3 ''global'' ''all'' \<lparr> lc_max = 2, lc_window = 60 \<rparr>
    = (Some denial, rd3)"
    using checkBucket_live [of rd2 "''global''" "''all''" s3 "\<lparr> lc_max = 2, lc_window = 60 \<rparr>"
             2 "s1 + 60"]
      store keys in_window by (simp add: rd0_def rd2_def rd3_def denial_def w3 G_def [symmetric])
  have step3: "checkLimit rl rd2 s3 (rq_ip r3) None = (denial, rd3)"
    by (simp add: checkLimit_def rl g3 denial_def)
  have ra: "1 \<le> ws + 60 - s3" "ws + 60 - s3 \<le> 60" "ws + 60 - s3 \<noteq> 0"
    using in_window by simp_all

  let ?serve1 = "serve cfg ok_handler (rq_id r1) t1 t1 gs r1"
  note a1 = serve_ok_allowed [where cfg = cfg and req = r1 and gs = gs and t = t1 and t' = t1
      and f = "rq_id r1" and res = "ok s1" and rd' = rd1, OF cfg(1) urls(1) urls(2)]
  have c1: "checkLimit (new_RateLimiter cfg) (gs_redis gs) (t1 div 1000) (rq_ip r1)
      (extractApiKey (rq_headers r1)) = (ok s1, rd1)"
    using step1 by (simp add: rl_def rd0_def s1_def nokey)
  have ok_fields: "rl_allowed (ok now)" "rl_remaining (ok now) = Some (M - 1)" for now
    by (simp_all add: ok_def)
  note b1 = a1 [OF c1 ok_fields(1)]
  obtain gs1 rep1 where e1: "?serve1 = (gs1, rep1)" by (cases ?serve1)
  have r1: "gs_redis gs1 = rd1" "rp_statusCode rep1 = 200"
    "header_of rep1 ''X-RateLimit-Remaining'' = Some (HNum (M - 1))"
    using b1(1) b1(2) b1(3) [OF ok_fields(2)] by (simp_all add: e1)

  let ?serve2 = "serve cfg ok_handler (rq_id r2) t2 t2 gs1 r2"
  have c2: "checkLimit (new_RateLimiter cfg) (gs_redis gs1) (t2 div 1000) (rq_ip r2)
      (extractApiKey (rq_headers r2)) = (ok s2, rd2)"
    using step2 by (simp add: rl_def r1 s2_def nokey)
  note b2 = serve_ok_allowed [where cfg = cfg and req = r2 and gs = gs1 and t = t2 and t' = t2
      and f = "rq_id r2" and res = "ok s2" and rd' = rd2, OF cfg(1) urls(3) urls(4) c2 ok_fields(1)]
  obtain gs2 rep2 where e2: "?serve2 = (gs2, rep2)" by (cases ?serve2)
  have r2: "gs_redis gs2 = rd2" "rp_statusCode rep2 = 200"
    "header_of rep2 ''X-RateLimit-Remaining'' = Some (HNum (M - 1))"
    using b2(1) b2(2) b2(3) [OF ok_fields(2)] by (simp_all add: e2)

  let ?serve3 = "serve cfg ok_handler (rq_id r3) t3 t3 gs2 r3"
  have c3: "checkLimit (new_RateLimiter cfg) (gs_redis gs2) (t3 div 1000) (rq_ip r3)
      (extractApiKey (rq_headers r3)) = (denial, rd3)"
    using step3 by (simp add: rl_def r2 s3_def nokey)
  have den: "\<not> rl_allowed denial" "rl_retryAfter denial = Some (ws + 60 - s3)"
    "rl_remaining denial = Some 0"
    by (simp_all add: denial_def)
  note b3 = serve_denied [where cfg = cfg and req = r3 and gs = gs2 and t = t3 and t' = t3
      and f = "rq_id r3" and res = denial and rd' = rd3 and handler = ok_handler
      and ra = "ws + 60 - s3", OF cfg(1) urls(5) urls(6) c3 den(1) den(2) ra(3)]
  obtain gs3 rep3 where e3: "?serve3 = (gs3, rep3)" by (cases ?serve3)
  have r3: "rp_statusCode rep3 = 429"
    "header_of rep3 ''X-RateLimit-Remaining'' = Some (HNum 0)"
    "header_of rep3 ''Retry-After'' = Some (HNum (ws + 60 - s3))"
    using b3(2) b3(3) b3(4) [OF den(3)] by (simp_all add: e3)

  have all: "snd (serve_all cfg ok_handler gs [(t1, r1), (t2, r2), (t3, r3)]) = [rep1, rep2, rep3]"
    by (simp add: e1 e2 e3)
  show "map rp_statusCode (snd (serve_all cfg ok_handler gs [(t1, r1), (t2, r2), (t3, r3)]))
           = [200, 200, 429]"
    unfolding all by (simp add: r1 r2 r3)
  show "map (\<lambda>rep. header_of rep ''X-RateLimit-Remaining'')
             (snd (serve_all cfg ok_handler gs [(t1, r1), (t2, r2), (t3, r3)]))
           = [Some (HNum (cfg_perIp cfg - 1)), Some (HNum (cfg_perIp cfg - 1)), Some (HNum 0)]"
    unfolding all by (simp add: r1 r2 r3 M_def)
  show "\<exists>ra. header_of (snd (serve_all cfg ok_handler gs [(t1, r1), (t2, r2), (t3, r3)]) ! 2)
                 ''Retry-After'' = Some (HNum ra) \<and> 1 \<le> ra \<and> ra \<le> 60"
    unfolding all using ra by (simp add: r3)
qed

text \<open>
  \<^bold>\<open>C8, as amended.\<close> With the global tier at \<open>max = 2\<close>, \<open>window = 60\<close> and the
  per-caller tier at \<open>max = M \<ge> 1\<close>, three consecutive requests that arrive in one global
  window from three distinct callers presenting no API key, against a store that holds no
  counter yet, are answered 200, 200, 429. \<^verbatim>\<open>X-RateLimit-Remaining\<close> is \<open>M - 1\<close>,
  \<open>M - 1\<close>, \<open>0\<close>: an admitted response carries the decision of the most specific tier
  evaluated (the per-caller tier, whose bucket is new for each caller), and only the denial
  carries the global tier's \<open>0\<close>. The third response carries \<^verbatim>\<open>Retry-After\<close> between 1
  and 60.
\<close>

theorem three_callers_global_exhaustion:
  assumes "cfg_rateLimiting cfg" and "cfg_global cfg = 2" and "cfg_globalWindow cfg = 60"
    and "1 \<le> cfg_perIp cfg" and "0 < cfg_perIpWindow cfg"
    and "rd_connected (gs_redis gs)" and "rd_counts (gs_redis gs) = Map.empty"
    and "rq_ip r1 \<noteq> rq_ip r2" and "rq_ip r1 \<noteq> rq_ip r3" and "rq_ip r2 \<noteq> rq_ip r3"
    and "extractApiKey (rq_headers r1) = None" and "extractApiKey (rq_headers r2) = None"
    and "extractApiKey (rq_headers r3) = None"
    and "rq_url r1 \<noteq> ''/health''" and "rq_url r1 \<noteq> ''/ready''"
    and "rq_url r2 \<noteq> ''/health''" and "rq_url r2 \<noteq> ''/ready''"
    and "rq_url r3 \<noteq> ''/health''" and "rq_url r3 \<noteq> ''/ready''"
    and "0 \<le> t1" and "t1 \<le> t2" and "t2 \<le> t3"
    and "(t1 div 1000) div 60 = (t3 div 1000) div 60"
  shows "map rp_statusCode (snd (serve_all cfg ok_handler gs [(t1, r1), (t2, r2), (t3, r3)]))
           = [200, 200, 429]
    \<and> map (\<lambda>rep. header_of rep ''X-RateLimit-Remaining'')
             (snd (serve_all cfg ok_handler gs [(t1, r1), (t2, r2), (t3, r3)]))
           = [Some (HNum (cfg_perIp cfg - 1)), Some (HNum (cfg_perIp cfg - 1)), Some (HNum 0)]
    \<and> (\<exists>ra. header_of (snd (serve_all cfg ok_handler gs [(t1, r1), (t2, r2), (t3, r3)]) ! 2)
                 ''Retry-After'' = Some (HNum ra) \<and> 1 \<le> ra \<and> ra \<le> 60)"
  using three_requests [OF assms] by blast

text \<open>
  The run used below: the defaults of \<^verbatim>\<open>config.js\<close> with the global tier at 2 per 60 s,
  and three callers one second apart, all inside the window that starts at second 120.
\<close>

lemma example_run_facts:
  "cfg_rateLimiting example_config" "cfg_global example_config = 2"
  "cfg_globalWindow example_config = 60" "1 \<le> cfg_perIp example_config"
  "0 < cfg_perIpWindow example_config"
  "rd_connected (gs_redis fresh_gateway)" "rd_counts (gs_redis fresh_gateway) = Map.empty"
  "rq_ip (caller ''198.51.100.1'') \<noteq> rq_ip (caller ''198.51.100.2'')"
  "rq_ip (caller ''198.51.100.1'') \<noteq> rq_ip (caller ''198.51.100.3'')"
  "rq_ip (caller ''198.51.100.2'') \<noteq> rq_ip (caller ''198.51.100.3'')"
  "extractApiKey (rq_headers (caller ''198.51.100.1'')) = None"
  "extractApiKey (rq_headers (caller ''198.51.100.2'')) = None"
  "extractApiKey (rq_headers (caller ''198.51.100.3'')) = None"
  "rq_url (caller ''198.51.100.1'') \<noteq> ''/health''" "rq_url (caller ''198.51.100.1'') \<noteq> ''/ready''"
  "rq_url (caller ''198.51.100.2'') \<noteq> ''/health''" "rq_url (caller ''198.51.100.2'') \<noteq> ''/ready''"
  "rq_url (caller ''198.51.100.3'') \<noteq> ''/health''" "rq_url (caller ''198.51.100.3'') \<noteq> ''/ready''"
  "(0::int) \<le> 125000" "(125000::int) \<le> 126000" "(126000::int) \<le> 127000"
  "((125000::int) div 1000) div 60 = (127000 div 1000) div 60"
  by (simp_all add: example_config_def fresh_gateway_def caller_def extractApiKey_def)

text \<open>
  Witness for C8: with the default per-caller limit of 100 the three responses carry
  \<^verbatim>\<open>X-RateLimit-Remaining\<close> 99, 99, 0.
\<close>

theorem three_callers_global_exhaustion_witness:
  "map rp_statusCode
     (snd (serve_all example_config ok_handler fresh_gateway
        [(125000, caller ''198.51.100.1''), (126000, caller ''198.51.100.2''),
         (127000, caller ''198.51.100.3'')])) = [200, 200, 429]
   \<and> map (\<lambda>rep. header_of rep ''X-RateLimit-Remaining'')
     (snd (serve_all example_config ok_handler fresh_gateway
        [(125000, caller ''198.51.100.1''), (126000, caller ''198.51.100.2''),
         (127000, caller ''198.51.100.3'')])) = [Some (HNum 99), Some (HNum 99), Some (HNum 0)]"
  using three_callers_global_exhaustion [OF example_run_facts]
  by (simp add: example_config_def)

text \<open>
  Counterexample to C8 as stated: on that run the header values are not 1, 0, 0.
\<close>

theorem remaining_headers_not_1_0_0:
  "\<not> (map (\<lambda>rep. header_of rep ''X-RateLimit-Remaining'')
     (snd (serve_all example_config ok_handler fresh_gateway
        [(125000, caller ''198.51.100.1''), (126000, caller ''198.51.100.2''),
         (127000, caller ''198.51.100.3'')])) = [Some (HNum 1), Some (HNum 0), Some (HNum 0)])"
  using three_requests(2) [OF example_run_facts]
  by (simp add: example_config_def)

subsection \<open>The audit entry of a rate-limited request (C2)\<close>

text \<open>
  The rate-limit hook answers a denied request itself and never touches the audit
  context; since it is registered before the audit plugin and before the hook that
  stamps the start time, neither of them runs. The \<^verbatim>\<open>onResponse\<close> hook then logs with
  \<^verbatim>\<open>{}\<close> and without a start time: the entry it builds says \<^verbatim>\<open>is_blocked = false\<close>, has no
  block reason, and its \<^verbatim>\<open>response_time_ms\<close> is \<^verbatim>\<open>NaN\<close>, which the \<^verbatim>\<open>INTEGER NOT NULL\<close>
  column refuses. The logger swallows the error, so nothing is stored.
\<close>

lemma denied_entry:
  assumes "rq_startTime req = None"
  shows "e_response_status (logEntry t' (fst (requestId_onRequest f req rep0)) rep empty_options)
           = rp_statusCode rep"
    and "e_is_blocked (logEntry t' (fst (requestId_onRequest f req rep0)) rep empty_options)
           = JBool False"
    and "e_block_reason (logEntry t' (fst (requestId_onRequest f req rep0)) rep empty_options)
           = JNull"
    and "e_response_time_ms (logEntry t' (fst (requestId_onRequest f req rep0)) rep empty_options)
           = JNaN"
  using assms
  by (simp_all add: logEntry_def requestId_onRequest_def Let_def empty_options_def js_or_def)

lemma NaN_time_is_refused: "e_response_time_ms e = JNaN \<Longrightarrow> insertAuditLog pg e = None"
  by (simp add: insertAuditLog_def audit_logs_accepts_def insertAuditLog_params_def
        column_ok_def is_null_def as_integer_def)

lemma denied_request_audit:
  assumes "cfg_rateLimiting cfg" and "cfg_auditLogging cfg"
    and "rq_url req \<noteq> ''/health''" and "rq_url req \<noteq> ''/ready''"
    and "checkLimit (new_RateLimiter cfg) (gs_redis gs) (t div 1000) (rq_ip req)
           (extractApiKey (rq_headers req)) = (res, rd')"
    and "\<not> rl_allowed res" and "rl_retryAfter res = Some ra" and "ra \<noteq> 0"
    and "rq_auditContext req = None" and "rq_startTime req = None"
    and "gs_audit gs = (al, pg)" and "al_enabled al"
  shows "\<exists>e. gs_audit (fst (serve cfg handler f t t' gs req))
               = (if al_async al then (queueLog al e, pg) else (al, pg))
     \<and> e_response_status e = 429 \<and> e_is_blocked e = JBool False \<and> e_block_reason e = JNull
     \<and> e_response_time_ms e = JNaN"
proof -
  note d = serve_denied [OF assms(1) assms(3) assms(4) assms(5) assms(6) assms(7) assms(8),
      where handler = handler and f = f and t' = t']
  let ?rep = "snd (serve cfg handler f t t' gs req)"
  let ?req1 = "fst (requestId_onRequest f req blank_reply)"
  let ?e = "logEntry t' ?req1 ?rep empty_options"
  note e = denied_entry [OF assms(10), where t' = t' and f = f and ?rep0.0 = blank_reply
      and rep = ?rep]
  have "gs_audit (fst (serve cfg handler f t t' gs req))
      = AuditLogger_log t' (al, pg) ?req1 ?rep empty_options"
    using d(6) assms by simp
  then have "gs_audit (fst (serve cfg handler f t t' gs req))
      = (if al_async al then (queueLog al ?e, pg) else (al, pg))"
    using assms(12) NaN_time_is_refused [OF e(4), of pg]
    by (simp add: AuditLogger_log_def Let_def)
  moreover have "e_response_status ?e = 429" using e(1) d(2) by simp
  ultimately show ?thesis using e(2) e(3) e(4) by blast
qed

text \<open>
  \<^bold>\<open>C2\<close> says that a request denied by the rate limiter gets 429, the structured error
  body and \<^verbatim>\<open>Retry-After\<close>, and that its audit entry has \<^verbatim>\<open>is_blocked = true\<close> and
  \<^verbatim>\<open>block_reason = rate-limit\<close>. The response is as claimed; the audit entry is not.
  Evaluated on a request that arrives at second 125 when the global bucket holds 2 of 2:
  the answer is 429 with \<^verbatim>\<open>Retry-After: 55\<close>. With the audit logger in synchronous mode
  the table is empty afterwards. With the logger in asynchronous mode (the default) the
  queue holds one entry, with status 429, \<^verbatim>\<open>is_blocked = false\<close>, \<^verbatim>\<open>block_reason = null\<close>
  and \<^verbatim>\<open>response_time_ms = NaN\<close>; processing the queue empties it and leaves the table
  empty.
\<close>

theorem rate_limited_request_leaves_no_blocked_entry:
  "rp_statusCode (snd (serve example_config ok_handler ''req-3'' 125000 125004
       \<lparr> gs_redis = exhausted_store, gs_audit = sync_logger \<rparr> (caller ''198.51.100.3''))) = 429
   \<and> header_of (snd (serve example_config ok_handler ''req-3'' 125000 125004
       \<lparr> gs_redis = exhausted_store, gs_audit = sync_logger \<rparr> (caller ''198.51.100.3'')))
         ''Retry-After'' = Some (HNum 55)
   \<and> pg_rows (snd (gs_audit (fst (serve example_config ok_handler ''req-3'' 125000 125004
        \<lparr> gs_redis = exhausted_store, gs_audit = sync_logger \<rparr> (caller ''198.51.100.3''))))) = []
   \<and> map (\<lambda>e. (e_response_status e, e_is_blocked e, e_block_reason e, e_response_time_ms e))
        (al_queue (fst (gs_audit (fst (serve example_config ok_handler ''req-3'' 125000 125004
           \<lparr> gs_redis = exhausted_store, gs_audit = async_logger \<rparr> (caller ''198.51.100.3''))))))
      = [(429, JBool False, JNull, JNaN)]
   \<and> al_queue (fst (processQueue (gs_audit (fst (serve example_config ok_handler ''req-3''
        125000 125004 \<lparr> gs_redis = exhausted_store, gs_audit = async_logger \<rparr>
        (caller ''198.51.100.3''))))))
      = []
   \<and> pg_rows (snd (processQueue (gs_audit (fst (serve example_config ok_handler ''req-3''
        125000 125004 \<lparr> gs_redis = exhausted_store, gs_audit = async_logger \<rparr>
        (caller ''198.51.100.3''))))))
      = []"
proof -
  let ?gs = "\<lparr> gs_redis = exhausted_store, gs_audit = sync_logger \<rparr>"
  let ?gs' = "\<lparr> gs_redis = exhausted_store, gs_audit = async_logger \<rparr>"
  let ?g = "\<lparr> rl_allowed = False, rl_limit = Some 2, rl_remaining = Some 0, rl_reset = Some 180,
              rl_retryAfter = Some 55, rl_type = Some ''global'' \<rparr>"
  let ?rd = "exhausted_store\<lparr>rd_counts := [bucket_key ''global'' ''all'' 120 \<mapsto> 3]\<rparr>"
  have lim: "checkLimit (new_RateLimiter example_config) (gs_redis ?gs) (125000 div 1000)
      (rq_ip (caller ''198.51.100.3'')) (extractApiKey (rq_headers (caller ''198.51.100.3'')))
      = (?g, ?rd)"
    using checkBucket_exhausted
    by (simp add: checkLimit_def new_RateLimiter_def example_config_def)
  have lim': "checkLimit (new_RateLimiter example_config) (gs_redis ?gs') (125000 div 1000)
      (rq_ip (caller ''198.51.100.3'')) (extractApiKey (rq_headers (caller ''198.51.100.3'')))
      = (?g, ?rd)"
    using lim by simp
  have cfg: "cfg_rateLimiting example_config" "cfg_auditLogging example_config"
    by (simp_all add: example_config_def)
  have url: "rq_url (caller ''198.51.100.3'') \<noteq> ''/health''"
    "rq_url (caller ''198.51.100.3'') \<noteq> ''/ready''"
    by (simp_all add: caller_def)
  have g: "\<not> rl_allowed ?g" "rl_retryAfter ?g = Some 55" "(55::int) \<noteq> 0" by simp_all
  note d = serve_denied [OF cfg(1) url lim g,
      where handler = ok_handler and f = "''req-3''" and t' = 125004]
  have ctx: "rq_auditContext (caller ''198.51.100.3'') = None"
    "rq_startTime (caller ''198.51.100.3'') = None"
    by (simp_all add: caller_def)
  have sync: "gs_audit ?gs = (fst sync_logger, snd sync_logger)" "al_enabled (fst sync_logger)"
    "\<not> al_async (fst sync_logger)" "pg_rows (snd sync_logger) = []"
    by (simp_all add: sync_logger_def)
  have async: "gs_audit ?gs' = (fst async_logger, snd async_logger)"
    "al_enabled (fst async_logger)" "al_async (fst async_logger)"
    "pg_rows (snd async_logger) = []" "al_queue (fst async_logger) = []"
    "al_maxQueueSize (fst async_logger) = 1000" "\<not> al_processing (fst async_logger)"
    by (simp_all add: async_logger_def)
  from denied_request_audit [OF cfg url lim g ctx sync(1) sync(2),
      where handler = ok_handler and f = "''req-3''" and t' = 125004]
  have stored: "pg_rows (snd (gs_audit (fst (serve example_config ok_handler ''req-3'' 125000
      125004 ?gs (caller ''198.51.100.3''))))) = []"
    using sync(3) sync(4) by auto
  from denied_request_audit [OF cfg url lim' g ctx async(1) async(2),
      where handler = ok_handler and f = "''req-3''" and t' = 125004]
  obtain e where e: "gs_audit (fst (serve example_config ok_handler ''req-3'' 125000
      125004 ?gs' (caller ''198.51.100.3''))) = (queueLog (fst async_logger) e, snd async_logger)"
    "e_response_status e = 429" "e_is_blocked e = JBool False" "e_block_reason e = JNull"
    "e_response_time_ms e = JNaN"
    using async(3) by auto
  have queue: "al_queue (queueLog (fst async_logger) e) = [e]"
    "\<not> al_processing (queueLog (fst async_logger) e)"
    using async(5) async(6) async(7) by (simp_all add: queueLog_def)
  have processed: "processQueue (queueLog (fst async_logger) e, snd async_logger)
      = ((queueLog (fst async_logger) e)\<lparr>al_queue := [], al_processing := False\<rparr>,
         snd async_logger)"
    using queue NaN_time_is_refused [OF e(5), of "snd async_logger"]
    by (simp add: processQueue_def)
  show ?thesis
    using d(2) d(3) stored e(2) e(3) e(4) e(5) async(4)
    by (simp add: e(1) queue(1) processed)
qed

section \<open>The content-policy block (C5)\<close>

lemma checkContent_first_success: "0 \<le> N \<Longrightarrow> rpc 0 = Inr v \<Longrightarrow> fst (checkContent rpc N) = Inr v"
  by (simp add: checkContent_def loop_success)

text \<open>
  \<^bold>\<open>C5\<close> says that every request whose verdict has \<^verbatim>\<open>is_safe = false\<close> is answered 403
  with the list of detected issues and the redacted text cut to 100 characters, and
  that the audit patch is set to \<^verbatim>\<open>is_blocked = true\<close>, \<^verbatim>\<open>block_reason\<close> the content-policy
  violation, \<^verbatim>\<open>detected_issues_count\<close> the number of issues and \<^verbatim>\<open>security_confidence\<close> the
  verdict's confidence. The handler does so when the audit plugin is registered
  (\<^verbatim>\<open>features.auditLogging\<close>, on by default). When it is not, \<^verbatim>\<open>request.setAuditContext\<close>
  is not defined: the call throws inside the handler's \<^verbatim>\<open>try\<close>, and the \<^verbatim>\<open>catch\<close>, meant
  for a failing analyzer, answers 503 without the issues. The theorem gives the whole
  answer of the handler for a request that reaches the analyzer (its body passes
  validation) and gets an unsafe verdict: each issue of the answer carries the type,
  the text, the position and the confidence of the verdict's issue, in the verdict's
  order.
\<close>

theorem unsafe_verdict_answer:
  assumes "rq_body req = Some b" and "cb_messages b \<noteq> []"
    and "cfg_minContentLength cfg \<le> sum_list (map (\<lambda>msg. int (length (m_content msg))) (cb_messages b))"
    and "sum_list (map (\<lambda>msg. int (length (m_content msg))) (cb_messages b)) \<le> cfg_maxContentLength cfg"
    and "fst (checkContent (analyzer (analysis_call req b)) (cfg_maxRetries cfg)) = Inr v"
    and "\<not> v_is_safe v"
  shows "chat_handler cfg analyzer now req rep =
    (if cfg_auditLogging cfg then
       (req\<lparr>rq_auditContext :=
          Some ((case rq_auditContext req of Some ctx \<Rightarrow> ctx | None \<Rightarrow> empty_options)
                  \<lparr> o_is_blocked := JBool True,
                    o_block_reason := JStr ''CONTENT_POLICY_VIOLATION'',
                    o_detected_issues_count := JNum (real (length (v_detected_issues v))),
                    o_security_confidence := JNum (v_confidence_score v) \<rparr>)\<rparr>,
        rep\<lparr> rp_statusCode := 403, rp_sent := True,
             rp_body := Some (ErrorBody
               \<lparr> eb_type = ''ContentPolicyViolation'',
                 eb_message = ''Content contains potential security issues and was blocked'',
                 eb_requestId = rq_id req, eb_timestamp = now,
                 eb_details =
                   BlockedDetails False
                     (map (\<lambda>issue. \<lparr> fi_type = di_type issue, fi_text = di_text issue,
                                     fi_start = di_start issue, fi_end = di_end issue,
                                     fi_confidence = di_confidence issue \<rparr>)
                          (v_detected_issues v))
                     (v_confidence_score v) (take 100 (v_redacted_text v)) \<rparr>) \<rparr>)
     else
       (req,
        rep\<lparr> rp_statusCode := 503, rp_sent := True,
             rp_body := Some (ErrorBody
               \<lparr> eb_type = ''ServiceUnavailableError'',
                 eb_message =
                   ''Security analysis service is temporarily unavailable. Please try again later.'',
                 eb_requestId = rq_id req, eb_timestamp = now,
                 eb_details = NoDetails \<rparr>) \<rparr>))"
proof -
  have issues: "map format_issue (v_detected_issues v)
      = map (\<lambda>issue. \<lparr> fi_type = di_type issue, fi_text = di_text issue,
                       fi_start = di_start issue, fi_end = di_end issue,
                       fi_confidence = di_confidence issue \<rparr>) (v_detected_issues v)"
    by (simp add: format_issue_def)
  show ?thesis
    using assms
    by (simp add: chat_handler_def Let_def setAuditContext_blocked_def issues
          service_unavailable_def error_reply_def)
qed

text \<open>
  Witness for C5: the request \<^verbatim>\<open>My SSN is 123-45-6789\<close>, for which the analyzer reports
  one issue with confidence 0.99. With the audit plugin the answer is 403 with that
  issue and the audit patch; with \<^verbatim>\<open>FEATURE_AUDIT_LOGGING=false\<close> the same request and the
  same verdict are answered 503, and the answer carries no issue.
\<close>

theorem unsafe_verdict_answer_witness:
  "\<not> v_is_safe ssn_verdict
   \<and> snd (chat_handler example_config (\<lambda>call k. Inr ssn_verdict) 2000 ssn_request blank_reply)
     = blank_reply
         \<lparr> rp_statusCode := 403, rp_sent := True,
           rp_body := Some (ErrorBody
             \<lparr> eb_type = ''ContentPolicyViolation'',
               eb_message = ''Content contains potential security issues and was blocked'',
               eb_requestId = ''req-2'', eb_timestamp = 2000,
               eb_details =
                 BlockedDetails False
                   [\<lparr> fi_type = ''SSN'', fi_text = ''123-45-6789'', fi_start = 10, fi_end = 21,
                      fi_confidence = 0.99 \<rparr>]
                   0.99 ''My SSN is [SSN]'' \<rparr>) \<rparr>
   \<and> rq_auditContext (fst (chat_handler example_config (\<lambda>call k. Inr ssn_verdict) 2000
                            ssn_request blank_reply)) =
       Some (initial_auditContext
               \<lparr> o_is_blocked := JBool True,
                 o_block_reason := JStr ''CONTENT_POLICY_VIOLATION'',
                 o_detected_issues_count := JNum 1,
                 o_security_confidence := JNum 0.99 \<rparr>)
   \<and> snd (chat_handler (example_config\<lparr>cfg_auditLogging := False\<rparr>) (\<lambda>call k. Inr ssn_verdict)
            2000 (ssn_request\<lparr>rq_auditContext := None\<rparr>) blank_reply)
     = blank_reply
         \<lparr> rp_statusCode := 503, rp_sent := True,
           rp_body := Some (ErrorBody
             \<lparr> eb_type = ''ServiceUnavailableError'',
               eb_message =
                 ''Security analysis service is temporarily unavailable. Please try again later.'',
               eb_requestId = ''req-2'', eb_timestamp = 2000,
               eb_details = NoDetails \<rparr>) \<rparr>
   \<and> rq_auditContext (fst (chat_handler (example_config\<lparr>cfg_auditLogging := False\<rparr>)
         (\<lambda>call k. Inr ssn_verdict) 2000 (ssn_request\<lparr>rq_auditContext := None\<rparr>) blank_reply))
     = None"
proof -
  let ?b = "\<lparr> cb_messages = [\<lparr> m_role = ''user'', m_content = ''My SSN is 123-45-6789'' \<rparr>],
             cb_model = Some ''gpt-4'' \<rparr>"
  let ?an = "\<lambda>(call :: check_request) (k :: nat). Inr ssn_verdict :: rpc_error + verdict"
  let ?off = "example_config\<lparr>cfg_auditLogging := False\<rparr>"
  let ?req = "ssn_request\<lparr>rq_auditContext := None\<rparr>"
  have on: "cfg_auditLogging example_config" and off: "\<not> cfg_auditLogging ?off"
    by (simp_all add: example_config_def)
  have 1: "rq_body ssn_request = Some ?b" "rq_body ?req = Some ?b"
    by (simp_all add: ssn_request_def)
  have 2: "cb_messages ?b \<noteq> []" by simp
  have 3: "cfg_minContentLength example_config
      \<le> sum_list (map (\<lambda>msg. int (length (m_content msg))) (cb_messages ?b))"
    "cfg_minContentLength ?off
      \<le> sum_list (map (\<lambda>msg. int (length (m_content msg))) (cb_messages ?b))"
    by (simp_all add: example_config_def)
  have 4: "sum_list (map (\<lambda>msg. int (length (m_content msg))) (cb_messages ?b))
      \<le> cfg_maxContentLength example_config"
    "sum_list (map (\<lambda>msg. int (length (m_content msg))) (cb_messages ?b))
      \<le> cfg_maxContentLength ?off"
    by (simp_all add: example_config_def)
  have 5: "fst (checkContent (?an (analysis_call ssn_request ?b)) (cfg_maxRetries example_config))
      = Inr ssn_verdict"
    "fst (checkContent (?an (analysis_call ?req ?b)) (cfg_maxRetries ?off)) = Inr ssn_verdict"
    by (rule checkContent_first_success, simp_all add: example_config_def)+
  have 6: "\<not> v_is_safe ssn_verdict" by (simp add: ssn_verdict_def)
  have a: "chat_handler example_config ?an 2000 ssn_request blank_reply
      = (ssn_request\<lparr>rq_auditContext :=
           Some (initial_auditContext
                  \<lparr> o_is_blocked := JBool True,
                    o_block_reason := JStr ''CONTENT_POLICY_VIOLATION'',
                    o_detected_issues_count := JNum 1,
                    o_security_confidence := JNum 0.99 \<rparr>)\<rparr>,
         blank_reply
           \<lparr> rp_statusCode := 403, rp_sent := True,
             rp_body := Some (ErrorBody
               \<lparr> eb_type = ''ContentPolicyViolation'',
                 eb_message = ''Content contains potential security issues and was blocked'',
                 eb_requestId = ''req-2'', eb_timestamp = 2000,
                 eb_details =
                   BlockedDetails False
                     [\<lparr> fi_type = ''SSN'', fi_text = ''123-45-6789'', fi_start = 10, fi_end = 21,
                        fi_confidence = 0.99 \<rparr>]
                     0.99 ''My SSN is [SSN]'' \<rparr>) \<rparr>)"
    using unsafe_verdict_answer [OF 1(1) 2 3(1) 4(1) 5(1) 6, of 2000 blank_reply] on
    by (simp add: ssn_verdict_def ssn_request_def)
  have b: "chat_handler ?off ?an 2000 ?req blank_reply
      = (?req,
         blank_reply
           \<lparr> rp_statusCode := 503, rp_sent := True,
             rp_body := Some (ErrorBody
               \<lparr> eb_type = ''ServiceUnavailableError'',
                 eb_message =
                   ''Security analysis service is temporarily unavailable. Please try again later.'',
                 eb_requestId = ''req-2'', eb_timestamp = 2000,
                 eb_details = NoDetails \<rparr>) \<rparr>)"
    using unsafe_verdict_answer [OF 1(2) 2 3(2) 4(2) 5(2) 6, of 2000 blank_reply] off
    by (simp add: ssn_request_def)
  show ?thesis using 6 by (simp add: a b)
qed
section \<open>Readiness (C3)\<close>

text \<open>
  \<^bold>\<open>C3\<close> says that \<^verbatim>\<open>GET /ready\<close> answers 200 exactly when the analyzer, the audit store
  and the rate-limit store are all healthy. The handler never asks the audit store
  (\<^verbatim>\<open>checks.postgres = true\<close>, a mock left with a TODO), and it compares the analyzer's
  status with the number 1 although the client decodes enums to their names. Evaluated:
  with the analyzer reporting status 1 and Redis up, a PostgreSQL that is down still
  gives 200; and with all three healthy and the status decoded as the client decodes it
  (\<^verbatim>\<open>'SERVING'\<close>), the answer is 503.
\<close>

theorem ready_disagrees_with_health:
  "rp_statusCode (ready_handler
       (Inr \<lparr> hr_status = JNum 1, hr_version = ''1.0.0'', hr_uptime_seconds = JNum 60 \<rparr>)
       \<lparr> rd_connected = True, rd_counts = Map.empty, rd_expires_at = Map.empty \<rparr>
       \<lparr> pg_up = False, pg_rows = [] \<rparr> 1000 blank_reply) = 200
   \<and> \<not> pg_healthCheck \<lparr> pg_up = False, pg_rows = [] \<rparr>
   \<and> rp_statusCode (ready_handler
       (Inr \<lparr> hr_status = decode_serving_status 1, hr_version = ''1.0.0'',
              hr_uptime_seconds = JNum 60 \<rparr>)
       \<lparr> rd_connected = True, rd_counts = Map.empty, rd_expires_at = Map.empty \<rparr>
       \<lparr> pg_up = True, pg_rows = [] \<rparr> 1000 blank_reply) = 503"
  by (simp add: ready_handler_def redis_healthCheck_def pg_healthCheck_def blank_reply_def
        decode_serving_status_def Let_def)

section \<open>Audit statistics (C9)\<close>

lemma outer_select_is_refused:
  "resolve_columns
     [(''status_counts'', status_counts_columns), (''audit_logs'', audit_logs_columns)]
     outer_select_references = Inl (AmbiguousColumn ''response_status'')"
  by (simp add: outer_select_references_def resolve_column_def status_counts_columns_def
        audit_logs_columns_def)

lemma sub_select_is_bound:
  "resolve_columns [(''audit_logs'', audit_logs_columns)] sub_select_references
     = Inr [(''response_status'', ''audit_logs''), (''timestamp'', ''audit_logs''),
            (''timestamp'', ''audit_logs''), (''response_status'', ''audit_logs'')]"
  by (simp add: sub_select_references_def resolve_column_def audit_logs_columns_def)

lemma get_audit_stats_raises:
  "get_audit_stats audit_logs p_start_time p_end_time = Inl (AmbiguousColumn ''response_status'')"
  by (simp add: get_audit_stats_def sub_select_is_bound outer_select_is_refused)

text \<open>
  The statement itself, were its reference qualified, would not count the entries of
  the range either: its aggregates run over the cross join, so \<^verbatim>\<open>COUNT(*)\<close> is the number of
  rows in the range times the number of distinct statuses among them.
\<close>

lemma stats_plan_total_is_product:
  "st_total_requests (run_stats_query rel audit_logs a b)
     = int (length (remdups (map r_response_status (in_range a b audit_logs))))
       * int (length (in_range a b audit_logs))"
  by (simp add: run_stats_query_def Let_def status_counts_def)

text \<open>
  \<^bold>\<open>C9\<close> says that \<^verbatim>\<open>statsOver\<close> returns, for every time range, the number of entries in
  the range, the number of blocked ones among them, and the number of distinct caller
  fingerprints. The stored function returns nothing: its outer select names
  \<^verbatim>\<open>response_status\<close> without a qualifier while both the sub-select and \<^verbatim>\<open>audit_logs\<close>
  have a column of that name, so the server refuses the statement on every call, whatever
  the table holds and whatever the range. \<^verbatim>\<open>getAuditStats\<close> throws the error again, and
  \<^verbatim>\<open>GET /admin/audit-stats\<close> answers 500 with no statistics.
\<close>

theorem audit_stats_never_returned:
  "getAuditStats audit_logs now_ms startTime endTime = Inl (AmbiguousColumn ''response_status'')
   \<and> sa_statusCode (audit_stats_route audit_logs now_ms startTime endTime) = 500
   \<and> sa_stats (audit_stats_route audit_logs now_ms startTime endTime) = None"
  by (simp add: audit_stats_route_def getAuditStats_def get_audit_stats_raises)
end
